theory Spec2Isabelle
  imports Complex_Main "HOL-Library.List_Lexorder" "HOL-Library.Char_ord"
begin

section \<open>Python values and the operations the service applies to them\<close>

text \<open>
  The serving code (backend/app.py) works on whatever \<^verbatim>\<open>request.get_json()\<close> returns,
  so a value is any JSON value as Python holds it. A dict is an association list in
  insertion order (the first binding of a key is the one that counts).

  A Python float is a real and float arithmetic is exact here: the rounding of a float
  operation, and the infinities and NaN that float arithmetic and the JSON parser can
  give without raising, are outside this model. Every exception is in it: an int that
  does not fit a float makes the conversion raise OverflowError.
\<close>

datatype pyval =
    PNone
  | PBool bool
  | PInt int
  | PFloat real
  | PStr string
  | PList "pyval list"
  | PDict "(string \<times> pyval) list"

type_synonym pydict = "(string \<times> pyval) list"

datatype py_error =
    TypeError
  | ValueError string
  | AttributeError
  | KeyError
  | IndexError
  | ZeroDivisionError
  | OverflowError
  | RaisedByLibrary string

definition and_then :: "'e + 'a \<Rightarrow> ('a \<Rightarrow> 'e + 'b) \<Rightarrow> 'e + 'b" where
  "and_then m f = (case m of Inl e \<Rightarrow> Inl e | Inr x \<Rightarrow> f x)"

text \<open>\<^verbatim>\<open>d.get(k, default)\<close>, \<^verbatim>\<open>d[k]\<close>, \<^verbatim>\<open>k in d\<close> and \<^verbatim>\<open>d[k] = v\<close> on a dict.\<close>

definition dict_get :: "pydict \<Rightarrow> string \<Rightarrow> pyval \<Rightarrow> pyval" where
  "dict_get d k dflt = (case map_of d k of None \<Rightarrow> dflt | Some v \<Rightarrow> v)"

definition dict_item :: "pydict \<Rightarrow> string \<Rightarrow> py_error + pyval" where
  "dict_item d k = (case map_of d k of None \<Rightarrow> Inl KeyError | Some v \<Rightarrow> Inr v)"

definition dict_has :: "pydict \<Rightarrow> string \<Rightarrow> bool" where
  "dict_has d k = (map_of d k \<noteq> None)"

fun dict_set :: "pydict \<Rightarrow> string \<Rightarrow> pyval \<Rightarrow> pydict" where
  "dict_set [] k v = [(k, v)]"
| "dict_set ((k', v') # d) k v = (if k' = k then (k', v) # d else (k', v') # dict_set d k v)"

text \<open>bool, int and float take part in arithmetic and ordering; nothing else does.\<close>

fun py_num :: "pyval \<Rightarrow> real option" where
  "py_num (PBool b) = Some (if b then 1 else 0)"
| "py_num (PInt i) = Some (real_of_int i)"
| "py_num (PFloat x) = Some x"
| "py_num _ = None"

text \<open>bool is a subclass of int.\<close>

fun py_int :: "pyval \<Rightarrow> int option" where
  "py_int (PBool b) = Some (if b then 1 else 0)"
| "py_int (PInt i) = Some i"
| "py_int _ = None"

text \<open>
  The range of a float: the greatest binary64 is \<open>2 ^ 1024 - 2 ^ 971\<close>, and rounding to
  nearest (ties to even) leaves the range from \<open>2 ^ 1024 - 2 ^ 970\<close> on.
\<close>

definition float_bound :: real where
  "float_bound = 2 ^ 1024 - 2 ^ 970"

text \<open>
  The operand of a float operation as a float: a float is taken as it is, an int is
  converted and raises OverflowError (int too large to convert to float) out of range.
\<close>

definition to_float :: "pyval \<Rightarrow> py_error + real" where
  "to_float v =
     (case py_int v of
        Some i \<Rightarrow> if float_bound \<le> \<bar>real_of_int i\<bar> then Inl OverflowError
                  else Inr (real_of_int i)
      | None \<Rightarrow> (case py_num v of None \<Rightarrow> Inl TypeError | Some x \<Rightarrow> Inr x))"

text \<open>
  \<^verbatim>\<open>a / b\<close>: TypeError unless both are numbers. Of two ints the quotient itself is
  rounded: ZeroDivisionError on a zero divisor, OverflowError (integer division result
  too large for a float) when the quotient is out of range. Otherwise an int operand is
  converted first, and then a zero divisor raises ZeroDivisionError.
\<close>

definition py_truediv :: "pyval \<Rightarrow> pyval \<Rightarrow> py_error + pyval" where
  "py_truediv a b =
     (if py_num a = None \<or> py_num b = None then Inl TypeError
      else
        (case (py_int a, py_int b) of
           (Some i, Some j) \<Rightarrow>
             if j = 0 then Inl ZeroDivisionError
             else if float_bound \<le> \<bar>real_of_int i / real_of_int j\<bar> then Inl OverflowError
             else Inr (PFloat (real_of_int i / real_of_int j))
         | _ \<Rightarrow>
             and_then (to_float a) (\<lambda>x.
             and_then (to_float b) (\<lambda>y.
             if y = 0 then Inl ZeroDivisionError else Inr (PFloat (x / y))))))"

text \<open>\<^verbatim>\<open>a > n\<close> against an int literal: TypeError unless \<open>a\<close> is a number.\<close>

definition py_gt_int :: "pyval \<Rightarrow> int \<Rightarrow> py_error + bool" where
  "py_gt_int a n = (case py_num a of None \<Rightarrow> Inl TypeError | Some x \<Rightarrow> Inr (real_of_int n < x))"

text \<open>\<^verbatim>\<open>1 if a == 'literal' else 0\<close>: \<^verbatim>\<open>==\<close> against a str never raises.\<close>

definition indicator :: "pyval \<Rightarrow> string \<Rightarrow> pyval" where
  "indicator a s = (if a = PStr s then PInt 1 else PInt 0)"

section \<open>Feature Engineer (backend/app.py, engineer_features)\<close>

definition neighbourhood_freq :: "(string \<times> real) list" where
  "neighbourhood_freq =
     [(''Harlem'', 0.054), (''Williamsburg'', 0.078), (''Upper West Side'', 0.042),
      (''Bedford-Stuyvesant'', 0.076), (''East Village'', 0.035), (''Brooklyn Heights'', 0.020),
      (''Astoria'', 0.028), (''Bushwick'', 0.047), (''Crown Heights'', 0.031),
      (''Upper East Side'', 0.034)]"

text \<open>
  \<^verbatim>\<open>neighbourhood_freq.get(neighbourhood, 0.01)\<close>: the key is hashed first, and a list or
  a dict is unhashable (TypeError). A key that is not a str equals none of the table's keys.
\<close>

fun freq_get :: "pyval \<Rightarrow> py_error + pyval" where
  "freq_get (PStr s) =
     Inr (PFloat (case map_of neighbourhood_freq s of None \<Rightarrow> 0.01 | Some x \<Rightarrow> x))"
| "freq_get (PList xs) = Inl TypeError"
| "freq_get (PDict d) = Inl TypeError"
| "freq_get _ = Inr (PFloat 0.01)"

text \<open>
  The body of engineer_features once \<^verbatim>\<open>input_data.get\<close> has been found, statement by
  statement. \<^verbatim>\<open>features_dict[k]\<close> reads are \<open>dict_item\<close>, assignments are \<open>dict_set\<close>.
\<close>

definition engineer_body :: "pydict \<Rightarrow> py_error + pydict" where
  "engineer_body input_data =
    (let features_dict =
           [(''latitude'', dict_get input_data ''latitude'' (PFloat 40.7580)),
            (''longitude'', dict_get input_data ''longitude'' (PFloat (- 73.9855))),
            (''minimum_nights'', dict_get input_data ''minimum_nights'' (PInt 1)),
            (''number_of_reviews'', dict_get input_data ''number_of_reviews'' (PInt 0)),
            (''reviews_per_month'', dict_get input_data ''reviews_per_month'' (PInt 0)),
            (''calculated_host_listings_count'',
               dict_get input_data ''calculated_host_listings_count'' (PInt 1)),
            (''availability_365'', dict_get input_data ''availability_365'' (PInt 365))]
     in
     and_then (dict_item features_dict ''availability_365'') (\<lambda>a365.
     and_then (py_truediv a365 (PInt 365)) (\<lambda>availability_ratio.
     let features_dict = dict_set features_dict ''availability_ratio'' availability_ratio in
     and_then (dict_item features_dict ''number_of_reviews'') (\<lambda>n_reviews.
     and_then (py_gt_int n_reviews 0) (\<lambda>has_reviews.
     and_then
       (if has_reviews
        then and_then (dict_item features_dict ''reviews_per_month'') (\<lambda>rpm.
             and_then (dict_item features_dict ''number_of_reviews'') (\<lambda>n. py_truediv rpm n))
        else Inr (PInt 0)) (\<lambda>reviews_density.
     let features_dict = dict_set features_dict ''reviews_density'' reviews_density in
     and_then (dict_item features_dict ''minimum_nights'') (\<lambda>min_nights.
     and_then (py_truediv min_nights (PInt 365)) (\<lambda>min_nights_ratio.
     let features_dict = dict_set features_dict ''min_nights_ratio'' min_nights_ratio;
         room_type = dict_get input_data ''room_type'' (PStr ''Entire home/apt'');
         features_dict = dict_set features_dict ''room_type_Entire home/apt''
                           (indicator room_type ''Entire home/apt'');
         features_dict = dict_set features_dict ''room_type_Private room''
                           (indicator room_type ''Private room'');
         features_dict = dict_set features_dict ''room_type_Shared room''
                           (indicator room_type ''Shared room'');
         neighbourhood_group = dict_get input_data ''neighbourhood_group'' (PStr ''Manhattan'');
         features_dict = dict_set features_dict ''neighbourhood_group_Bronx''
                           (indicator neighbourhood_group ''Bronx'');
         features_dict = dict_set features_dict ''neighbourhood_group_Brooklyn''
                           (indicator neighbourhood_group ''Brooklyn'');
         features_dict = dict_set features_dict ''neighbourhood_group_Manhattan''
                           (indicator neighbourhood_group ''Manhattan'');
         features_dict = dict_set features_dict ''neighbourhood_group_Queens''
                           (indicator neighbourhood_group ''Queens'');
         features_dict = dict_set features_dict ''neighbourhood_group_Staten Island''
                           (indicator neighbourhood_group ''Staten Island'');
         neighbourhood = dict_get input_data ''neighbourhood'' (PStr ''Harlem'')
     in
     and_then (freq_get neighbourhood) (\<lambda>encoded.
     Inr (dict_set features_dict ''neighbourhood_encoded'' encoded))))))))))"

text \<open>
  \<^verbatim>\<open>input_data.get\<close> exists only on a dict: None, a number, a str or a list raise
  AttributeError at the first statement.
\<close>

definition engineer_features :: "pyval \<Rightarrow> py_error + pydict" where
  "engineer_features input_data =
     (case input_data of PDict d \<Rightarrow> engineer_body d | _ \<Rightarrow> Inl AttributeError)"

section \<open>Vector Aligner (backend/app.py, prepare_features_array)\<close>

text \<open>
  What surrounds the service and is not in its source: the parsed request body (or the
  exception \<^verbatim>\<open>request.get_json()\<close> raised), the draw of \<^verbatim>\<open>np.random.uniform(0.75, 0.95)\<close>,
  the outcome of \<^verbatim>\<open>supabase.table('predictions').insert(record).execute()\<close> (an exception,
  or the value of \<^verbatim>\<open>response.data\<close>), what numpy does when an object that is not a number
  is stored into a float64 array (the message of the exception it raises, or the float it
  stores), the binary64 nearest to an int, and how an f-string formats a value that is
  not a str.
\<close>

record world =
  get_json :: "py_error + pyval"
  random_uniform :: real
  insert_execute :: "pyval \<Rightarrow> py_error + pyval"
  np_object :: "pyval \<Rightarrow> string + real"
  nearest_float :: "int \<Rightarrow> real"
  format_object :: "pyval \<Rightarrow> string"

text \<open>
  A loaded model is opaque: \<^verbatim>\<open>float(model.predict(feature_array)[0])\<close> is a function of the
  row of the \<open>(1, n)\<close> array, and may raise.
\<close>

type_synonym model = "real list \<Rightarrow> py_error + real"

text \<open>The module-level globals that load_models sets; None until loaded.\<close>

record globals =
  price_model :: "model option"
  demand_model :: "model option"
  feature_columns :: "string list option"
  metadata :: pyval

text \<open>
  \<^verbatim>\<open>feature_array[i] = v\<close>: a float and a bool are stored as they are; an int is
  converted, exactly up to \<open>2 ^ 53\<close>, to the nearest binary64 beyond, and raises
  OverflowError out of the float range; what numpy raises for any other object is an
  exception of the library.
\<close>

fun np_float64 :: "world \<Rightarrow> pyval \<Rightarrow> py_error + real" where
  "np_float64 w (PFloat x) = Inr x"
| "np_float64 w (PBool b) = Inr (if b then 1 else 0)"
| "np_float64 w (PInt i) =
     (if float_bound \<le> \<bar>real_of_int i\<bar> then Inl OverflowError
      else if \<bar>i\<bar> \<le> 2 ^ 53 then Inr (real_of_int i)
      else Inr (nearest_float w i))"
| "np_float64 w v = (case np_object w v of Inl msg \<Rightarrow> Inl (RaisedByLibrary msg) | Inr x \<Rightarrow> Inr x)"

text \<open>The loop over \<^verbatim>\<open>enumerate(feature_columns)\<close>, the array being the state.\<close>

fun fill_loop :: "world \<Rightarrow> pydict \<Rightarrow> (nat \<times> string) list \<Rightarrow> real list \<Rightarrow> py_error + real list" where
  "fill_loop w features_dict [] feature_array = Inr feature_array"
| "fill_loop w features_dict ((i, col) # rest) feature_array =
     (if dict_has features_dict col
      then and_then (dict_item features_dict col) (\<lambda>v.
           and_then (np_float64 w v) (\<lambda>x.
           fill_loop w features_dict rest (feature_array[i := x])))
      else fill_loop w features_dict rest feature_array)"

definition schema_unavailable :: py_error where
  "schema_unavailable = ValueError ''Feature columns not loaded''"

text \<open>The result is the single row of \<^verbatim>\<open>feature_array.reshape(1, -1)\<close>.\<close>

definition prepare_features_array :: "world \<Rightarrow> globals \<Rightarrow> pydict \<Rightarrow> py_error + real list" where
  "prepare_features_array w g features_dict =
     (case feature_columns g of
        None \<Rightarrow> Inl schema_unavailable
      | Some cols \<Rightarrow>
          fill_loop w features_dict (enumerate 0 cols) (replicate (length cols) 0))"

section \<open>Prediction Service (backend/app.py, predict_price and predict_demand)\<close>

fun py_truthy :: "pyval \<Rightarrow> bool" where
  "py_truthy PNone = False"
| "py_truthy (PBool b) = b"
| "py_truthy (PInt i) = (i \<noteq> 0)"
| "py_truthy (PFloat x) = (x \<noteq> 0)"
| "py_truthy (PStr s) = (s \<noteq> [])"
| "py_truthy (PList xs) = (xs \<noteq> [])"
| "py_truthy (PDict d) = (d \<noteq> [])"

text \<open>\<^verbatim>\<open>a['key']\<close> with a str key: only a dict can be subscripted by a str.\<close>

fun py_getitem :: "pyval \<Rightarrow> string \<Rightarrow> py_error + pyval" where
  "py_getitem (PDict d) k = dict_item d k"
| "py_getitem _ k = Inl TypeError"

text \<open>\<^verbatim>\<open>a[0]\<close>.\<close>

fun py_first :: "pyval \<Rightarrow> py_error + pyval" where
  "py_first (PList []) = Inl IndexError"
| "py_first (PList (x # xs)) = Inr x"
| "py_first (PStr []) = Inl IndexError"
| "py_first (PStr (c # cs)) = Inr (PStr [c])"
| "py_first (PDict d) = Inl KeyError"
| "py_first _ = Inl TypeError"

text \<open>\<^verbatim>\<open>max(10, x)\<close> keeps its first argument unless the second is greater.\<close>

definition py_max_10 :: "real \<Rightarrow> pyval" where
  "py_max_10 x = (if 10 < x then PFloat x else PInt 10)"

definition np_clip :: "real \<Rightarrow> real \<Rightarrow> real \<Rightarrow> real" where
  "np_clip x lo hi = min (max x lo) hi"

text \<open>\<^verbatim>\<open>metadata[key]['version'] if metadata else '1.0'\<close>.\<close>

definition record_version :: "globals \<Rightarrow> string \<Rightarrow> py_error + pyval" where
  "record_version g key =
     (if py_truthy (metadata g)
      then and_then (py_getitem (metadata g) key) (\<lambda>m. py_getitem m ''version'')
      else Inr (PStr ''1.0''))"

definition py_format :: "world \<Rightarrow> pyval \<Rightarrow> string" where
  "py_format w v = (case v of PStr s \<Rightarrow> s | _ \<Rightarrow> format_object w v)"

text \<open>\<^verbatim>\<open>f"<name>-v{metadata[key]['version']}" if metadata else '<name>-v1.0'\<close>.\<close>

definition result_version :: "world \<Rightarrow> globals \<Rightarrow> string \<Rightarrow> string \<Rightarrow> py_error + pyval" where
  "result_version w g name key =
     (if py_truthy (metadata g)
      then and_then (py_getitem (metadata g) key) (\<lambda>m.
           and_then (py_getitem m ''version'') (\<lambda>v.
           Inr (PStr (name @ ''-v'' @ py_format w v))))
      else Inr (PStr (name @ ''-v1.0'')))"

text \<open>
  The inner try: \<^verbatim>\<open>response.data[0]['id'] if response.data else None\<close>, and None on any
  exception of the insert or of that expression.
\<close>

definition store :: "world \<Rightarrow> pyval \<Rightarrow> pyval" where
  "store w prediction_record =
     (case and_then (insert_execute w prediction_record) (\<lambda>data.
             if py_truthy data
             then and_then (py_first data) (\<lambda>row. py_getitem row ''id'')
             else Inr PNone) of
        Inl db_error \<Rightarrow> PNone
      | Inr prediction_id \<Rightarrow> prediction_id)"

datatype response_body = ErrorLiteral string | ErrorStr py_error | Json pydict

text \<open>
  An endpoint returns the response (body and status) and, as its effect, the records it
  handed to the insert.
\<close>

type_synonym outcome = "(response_body \<times> nat) \<times> pyval list"

text \<open>The outer try of predict_price up to the insert.\<close>

definition price_record :: "world \<Rightarrow> globals \<Rightarrow> model \<Rightarrow> py_error + (pyval \<times> real \<times> pyval)" where
  "price_record w g m =
     and_then (get_json w) (\<lambda>input_data.
     and_then (engineer_features input_data) (\<lambda>features_dict.
     and_then (prepare_features_array w g features_dict) (\<lambda>feature_array.
     and_then (m feature_array) (\<lambda>raw.
     let predicted_price = py_max_10 raw;
         confidence = random_uniform w
     in
     and_then (record_version g ''price_model'') (\<lambda>version.
     Inr (predicted_price, confidence,
          PDict [(''prediction_type'', PStr ''price''),
                 (''predicted_value'', predicted_price),
                 (''confidence_score'', PFloat confidence),
                 (''model_version'', version),
                 (''input_features'', PDict features_dict)]))))))"

definition predict_price :: "world \<Rightarrow> globals \<Rightarrow> outcome" where
  "predict_price w g =
     (case price_model g of
        None \<Rightarrow> ((ErrorLiteral ''Price model not loaded'', 500), [])
      | Some m \<Rightarrow>
          (case price_record w g m of
             Inl e \<Rightarrow> ((ErrorStr e, 500), [])
           | Inr (predicted_price, confidence, prediction_record) \<Rightarrow>
               (let prediction_id = store w prediction_record in
                (case result_version w g ''RandomForestRegressor'' ''price_model'' of
                   Inl e \<Rightarrow> ((ErrorStr e, 500), [prediction_record])
                 | Inr version \<Rightarrow>
                     ((Json [(''prediction_id'', prediction_id),
                             (''predicted_price'', predicted_price),
                             (''confidence'', PFloat confidence),
                             (''model_version'', version)], 200),
                      [prediction_record])))))"

text \<open>The outer try of predict_demand up to the insert.\<close>

definition demand_record :: "world \<Rightarrow> globals \<Rightarrow> model \<Rightarrow> py_error + (string \<times> real \<times> pyval)" where
  "demand_record w g m =
     and_then (get_json w) (\<lambda>input_data.
     and_then (engineer_features input_data) (\<lambda>features_dict.
     and_then (prepare_features_array w g features_dict) (\<lambda>feature_array.
     and_then (m feature_array) (\<lambda>raw.
     let probability = np_clip raw 0 1;
         predicted_class = (if 0.5 < probability then ''high-demand'' else ''low-demand'')
     in
     and_then (record_version g ''demand_model'') (\<lambda>version.
     Inr (predicted_class, probability,
          PDict [(''prediction_type'', PStr ''demand''),
                 (''predicted_class'', PStr predicted_class),
                 (''confidence_score'', PFloat probability),
                 (''model_version'', version),
                 (''input_features'', PDict features_dict)]))))))"

definition predict_demand :: "world \<Rightarrow> globals \<Rightarrow> outcome" where
  "predict_demand w g =
     (case demand_model g of
        None \<Rightarrow> ((ErrorLiteral ''Demand model not loaded'', 500), [])
      | Some m \<Rightarrow>
          (case demand_record w g m of
             Inl e \<Rightarrow> ((ErrorStr e, 500), [])
           | Inr (predicted_class, probability, prediction_record) \<Rightarrow>
               (let prediction_id = store w prediction_record in
                (case result_version w g ''LightGBMClassifier'' ''demand_model'' of
                   Inl e \<Rightarrow> ((ErrorStr e, 500), [prediction_record])
                 | Inr version \<Rightarrow>
                     ((Json [(''prediction_id'', prediction_id),
                             (''predicted_class'', PStr predicted_class),
                             (''probability'', PFloat probability),
                             (''model_version'', version)], 200),
                      [prediction_record])))))"

section \<open>Training pipeline (ml_models/train_models.py, engineer_features)\<close>

text \<open>
  A row of the frame that generate_realistic_nyc_airbnb_data builds, with the column
  types it generates. The frame is the list of its rows.
\<close>

record listing =
  latitude :: real
  longitude :: real
  room_type :: string
  neighbourhood_group :: string
  neighbourhood :: string
  minimum_nights :: int
  number_of_reviews :: int
  reviews_per_month :: real
  calculated_host_listings_count :: int
  availability_365 :: real
  price :: real
  high_demand :: int

definition columns :: "listing \<Rightarrow> pydict" where
  "columns r =
     [(''latitude'', PFloat (latitude r)),
      (''longitude'', PFloat (longitude r)),
      (''room_type'', PStr (room_type r)),
      (''neighbourhood_group'', PStr (neighbourhood_group r)),
      (''neighbourhood'', PStr (neighbourhood r)),
      (''minimum_nights'', PInt (minimum_nights r)),
      (''number_of_reviews'', PInt (number_of_reviews r)),
      (''reviews_per_month'', PFloat (reviews_per_month r)),
      (''calculated_host_listings_count'', PInt (calculated_host_listings_count r)),
      (''availability_365'', PFloat (availability_365 r)),
      (''price'', PFloat (price r)),
      (''high_demand'', PInt (high_demand r))]"

text \<open>\<^verbatim>\<open>series.value_counts(normalize=True).to_dict()\<close>: the share of each value in the column.\<close>

definition value_counts :: "string list \<Rightarrow> (string \<times> real) list" where
  "value_counts col = map (\<lambda>v. (v, real (count_list col v) / real (length col))) (remdups col)"

text \<open>
  One cell of \<^verbatim>\<open>series.map(dict)\<close>. pandas leaves a value that is missing from the dict
  without a number; the dict here is built from the same column, so no value is missing.
\<close>

definition series_map :: "(string \<times> real) list \<Rightarrow> string \<Rightarrow> pyval" where
  "series_map freq x = (case map_of freq x of None \<Rightarrow> PNone | Some p \<Rightarrow> PFloat p)"

text \<open>
  \<^verbatim>\<open>pd.get_dummies(series, prefix=p)\<close>, as the cells of the row whose value is \<open>x\<close>: one
  column per value that occurs in the series, in sorted order, true where the row has it.
\<close>

definition get_dummies :: "string list \<Rightarrow> string \<Rightarrow> string \<Rightarrow> pydict" where
  "get_dummies col prefix x = map (\<lambda>v. (prefix @ ''_'' @ v, PBool (x = v))) (sort (remdups col))"

definition train_engineer_features :: "listing list \<Rightarrow> pydict list" where
  "train_engineer_features df =
     (let neighbourhood_freq = value_counts (map neighbourhood df)
      in map (\<lambda>r.
           columns r @
           [(''availability_ratio'', PFloat (availability_365 r / 365)),
            (''reviews_density'',
               PFloat (if 0 < number_of_reviews r
                       then reviews_per_month r / real_of_int (number_of_reviews r) else 0)),
            (''min_nights_ratio'', PFloat (real_of_int (minimum_nights r) / 365)),
            (''neighbourhood_encoded'', series_map neighbourhood_freq (neighbourhood r))] @
           get_dummies (map room_type df) ''room_type'' (room_type r) @
           get_dummies (map neighbourhood_group df) ''neighbourhood_group''
             (neighbourhood_group r)) df)"

text \<open>The raw attributes of a listing as a client posts them: its columns without the labels.\<close>

definition raw_record :: "listing \<Rightarrow> pyval" where
  "raw_record r = PDict (take 10 (columns r))"

section \<open>Vocabulary of the properties\<close>

definition feature_of :: "py_error + pydict \<Rightarrow> string \<Rightarrow> pyval option" where
  "feature_of r k = (case r of Inl e \<Rightarrow> None | Inr features_dict \<Rightarrow> map_of features_dict k)"

definition feature_names :: "string list" where
  "feature_names =
     [''latitude'', ''longitude'', ''minimum_nights'', ''number_of_reviews'',
      ''reviews_per_month'', ''calculated_host_listings_count'', ''availability_365'',
      ''availability_ratio'', ''reviews_density'', ''min_nights_ratio'',
      ''room_type_Entire home/apt'', ''room_type_Private room'', ''room_type_Shared room'',
      ''neighbourhood_group_Bronx'', ''neighbourhood_group_Brooklyn'',
      ''neighbourhood_group_Manhattan'', ''neighbourhood_group_Queens'',
      ''neighbourhood_group_Staten Island'', ''neighbourhood_encoded'']"

definition room_types :: "string list" where
  "room_types = [''Entire home/apt'', ''Private room'', ''Shared room'']"

definition neighbourhood_groups :: "string list" where
  "neighbourhood_groups = [''Bronx'', ''Brooklyn'', ''Manhattan'', ''Queens'', ''Staten Island'']"

text \<open>How many indicators of a group (prefix and category values) are 1 in a feature set.\<close>

definition ones :: "pydict \<Rightarrow> string \<Rightarrow> string list \<Rightarrow> nat" where
  "ones features_dict prefix cats =
     length (filter (\<lambda>c. map_of features_dict (prefix @ c) = Some (PInt 1)) cats)"

text \<open>The defaults of the raw fields that engineer_features copies.\<close>

definition raw_defaults :: pydict where
  "raw_defaults =
     [(''latitude'', PFloat 40.7580), (''longitude'', PFloat (- 73.9855)),
      (''minimum_nights'', PInt 1), (''number_of_reviews'', PInt 0),
      (''reviews_per_month'', PInt 0), (''calculated_host_listings_count'', PInt 1),
      (''availability_365'', PInt 365)]"

definition is_number :: "pyval \<Rightarrow> bool" where
  "is_number v = (py_num v \<noteq> None)"

fun hashable :: "pyval \<Rightarrow> bool" where
  "hashable (PList xs) = False"
| "hashable (PDict d) = False"
| "hashable _ = True"

text \<open>
  A quotient that a float can hold: both operands are numbers; the quotient of two ints
  is within the float range; in a division of an int and a float the int is.
\<close>

definition quotient_fits :: "pyval \<Rightarrow> pyval \<Rightarrow> bool" where
  "quotient_fits a b =
     (is_number a \<and> is_number b \<and>
      (case (py_int a, py_int b) of
         (Some i, Some j) \<Rightarrow> \<bar>real_of_int i / real_of_int j\<bar> < float_bound
       | (Some i, None) \<Rightarrow> \<bar>real_of_int i\<bar> < float_bound
       | (None, Some j) \<Rightarrow> \<bar>real_of_int j\<bar> < float_bound
       | (None, None) \<Rightarrow> True))"

text \<open>
  The raw mappings on which the arithmetic of engineer_features is defined: the fields it
  divides or compares are numbers (reviews_per_month only when it is divided), each
  quotient it forms fits a float, and the neighbourhood can be a dict key.
\<close>

definition numeric_fields :: "pydict \<Rightarrow> bool" where
  "numeric_fields d =
     (quotient_fits (dict_get d ''availability_365'' (PInt 365)) (PInt 365) \<and>
      is_number (dict_get d ''number_of_reviews'' (PInt 0)) \<and>
      (py_gt_int (dict_get d ''number_of_reviews'' (PInt 0)) 0 = Inr False \<or>
       quotient_fits (dict_get d ''reviews_per_month'' (PInt 0))
         (dict_get d ''number_of_reviews'' (PInt 0))) \<and>
      quotient_fits (dict_get d ''minimum_nights'' (PInt 1)) (PInt 365) \<and>
      hashable (dict_get d ''neighbourhood'' (PStr ''Harlem'')))"

text \<open>The values a float64 array takes: a float, a bool, an int within the float range.\<close>

fun storable :: "pyval \<Rightarrow> bool" where
  "storable (PFloat x) = True"
| "storable (PBool b) = True"
| "storable (PInt i) = (\<bar>real_of_int i\<bar> < float_bound)"
| "storable _ = False"

text \<open>The float the array then holds: the value itself, rounded for an int beyond \<open>2 ^ 53\<close>.\<close>

fun stored :: "world \<Rightarrow> pyval \<Rightarrow> real" where
  "stored w (PFloat x) = x"
| "stored w (PBool b) = (if b then 1 else 0)"
| "stored w (PInt i) = (if \<bar>i\<bar> \<le> 2 ^ 53 then real_of_int i else nearest_float w i)"
| "stored w _ = 0"

text \<open>The feature set engineer_features returns, given its four computed values.\<close>

definition engineered :: "pydict \<Rightarrow> pyval \<Rightarrow> pyval \<Rightarrow> pyval \<Rightarrow> pyval \<Rightarrow> pydict" where
  "engineered d ar rd mr enc =
     [(''latitude'', dict_get d ''latitude'' (PFloat 40.7580)),
      (''longitude'', dict_get d ''longitude'' (PFloat (- 73.9855))),
      (''minimum_nights'', dict_get d ''minimum_nights'' (PInt 1)),
      (''number_of_reviews'', dict_get d ''number_of_reviews'' (PInt 0)),
      (''reviews_per_month'', dict_get d ''reviews_per_month'' (PInt 0)),
      (''calculated_host_listings_count'', dict_get d ''calculated_host_listings_count'' (PInt 1)),
      (''availability_365'', dict_get d ''availability_365'' (PInt 365)),
      (''availability_ratio'', ar),
      (''reviews_density'', rd),
      (''min_nights_ratio'', mr),
      (''room_type_Entire home/apt'',
         indicator (dict_get d ''room_type'' (PStr ''Entire home/apt'')) ''Entire home/apt''),
      (''room_type_Private room'',
         indicator (dict_get d ''room_type'' (PStr ''Entire home/apt'')) ''Private room''),
      (''room_type_Shared room'',
         indicator (dict_get d ''room_type'' (PStr ''Entire home/apt'')) ''Shared room''),
      (''neighbourhood_group_Bronx'',
         indicator (dict_get d ''neighbourhood_group'' (PStr ''Manhattan'')) ''Bronx''),
      (''neighbourhood_group_Brooklyn'',
         indicator (dict_get d ''neighbourhood_group'' (PStr ''Manhattan'')) ''Brooklyn''),
      (''neighbourhood_group_Manhattan'',
         indicator (dict_get d ''neighbourhood_group'' (PStr ''Manhattan'')) ''Manhattan''),
      (''neighbourhood_group_Queens'',
         indicator (dict_get d ''neighbourhood_group'' (PStr ''Manhattan'')) ''Queens''),
      (''neighbourhood_group_Staten Island'',
         indicator (dict_get d ''neighbourhood_group'' (PStr ''Manhattan'')) ''Staten Island''),
      (''neighbourhood_encoded'', enc)]"

text \<open>What an endpoint returned, without the named keys of the result and of the records.\<close>

fun without :: "string list \<Rightarrow> pyval \<Rightarrow> pyval" where
  "without ks (PDict d) = PDict (filter (\<lambda>kv. fst kv \<notin> set ks) d)"
| "without ks v = v"

fun without_body :: "string list \<Rightarrow> response_body \<Rightarrow> response_body" where
  "without_body ks (Json d) = Json (filter (\<lambda>kv. fst kv \<notin> set ks) d)"
| "without_body ks b = b"

definition observable :: "string list \<Rightarrow> outcome \<Rightarrow> outcome" where
  "observable ks out =
     ((without_body ks (fst (fst out)), snd (fst out)), map (without ks) (snd out))"

definition status :: "outcome \<Rightarrow> nat" where
  "status out = snd (fst out)"

text \<open>A field of the JSON result an endpoint answered; None for an error body.\<close>

definition answer :: "outcome \<Rightarrow> string \<Rightarrow> pyval option" where
  "answer out k = (case fst (fst out) of Json result \<Rightarrow> map_of result k | _ \<Rightarrow> None)"

section \<open>Concrete surroundings for evaluating the service\<close>

definition constant_model :: "real \<Rightarrow> model" where
  "constant_model c feature_array = Inr c"

definition sink_down :: "pyval \<Rightarrow> py_error + pyval" where
  "sink_down prediction_record = Inl (RaisedByLibrary ''connection refused'')"

definition sink_up :: "pyval \<Rightarrow> py_error + pyval" where
  "sink_up prediction_record = Inr (PList [PDict [(''id'', PInt 7)]])"

text \<open>numpy on a str that is no numeral: \<^verbatim>\<open>ValueError: could not convert string to float\<close>.\<close>

definition numpy_rejects :: "pyval \<Rightarrow> string + real" where
  "numpy_rejects v = Inl ''ValueError: could not convert string to float''"

definition format_repr :: "pyval \<Rightarrow> string" where
  "format_repr v = ''<object>''"

definition a_world :: "py_error + pyval \<Rightarrow> (pyval \<Rightarrow> py_error + pyval) \<Rightarrow> world" where
  "a_world body sink =
     \<lparr>get_json = body, random_uniform = 0.8, insert_execute = sink,
      np_object = numpy_rejects, nearest_float = real_of_int, format_object = format_repr\<rparr>"

definition some_globals :: "model option \<Rightarrow> model option \<Rightarrow> string list option \<Rightarrow> globals" where
  "some_globals pm dm cols =
     \<lparr>price_model = pm, demand_model = dm, feature_columns = cols, metadata = PNone\<rparr>"

definition harlem :: listing where
  "harlem =
     \<lparr>latitude = 40.81, longitude = - 73.94, room_type = ''Private room'',
      neighbourhood_group = ''Manhattan'', neighbourhood = ''Harlem'', minimum_nights = 2,
      number_of_reviews = 12, reviews_per_month = 1.5, calculated_host_listings_count = 1,
      availability_365 = 200, price = 120, high_demand = 0\<rparr>"

definition astoria :: listing where
  "astoria =
     \<lparr>latitude = 40.76, longitude = - 73.92, room_type = ''Entire home/apt'',
      neighbourhood_group = ''Queens'', neighbourhood = ''Astoria'', minimum_nights = 1,
      number_of_reviews = 0, reviews_per_month = 0, calculated_host_listings_count = 3,
      availability_365 = 90, price = 150, high_demand = 0\<rparr>"

section \<open>Feature Engineer: the returned feature set\<close>

lemma and_then_simps [simp]: "and_then (Inl e) f = Inl e" "and_then (Inr x) f = f x"
  by (simp_all add: and_then_def)

lemma and_then_Inr_iff: "and_then m f = Inr y \<longleftrightarrow> (\<exists>x. m = Inr x \<and> f x = Inr y)"
  by (cases m) simp_all

lemma engineer_body_closed:
  "engineer_body d =
     and_then (py_truediv (dict_get d ''availability_365'' (PInt 365)) (PInt 365)) (\<lambda>ar.
     and_then (py_gt_int (dict_get d ''number_of_reviews'' (PInt 0)) 0) (\<lambda>has.
     and_then (if has then py_truediv (dict_get d ''reviews_per_month'' (PInt 0))
                                      (dict_get d ''number_of_reviews'' (PInt 0))
               else Inr (PInt 0)) (\<lambda>rd.
     and_then (py_truediv (dict_get d ''minimum_nights'' (PInt 1)) (PInt 365)) (\<lambda>mr.
     and_then (freq_get (dict_get d ''neighbourhood'' (PStr ''Harlem''))) (\<lambda>enc.
     Inr (engineered d ar rd mr enc))))))"
  unfolding engineer_body_def engineered_def Let_def
  by (simp add: dict_item_def cong: if_cong)

lemma engineer_features_Inr:
  assumes "engineer_features input_data = Inr f"
  obtains d ar rd mr enc where "input_data = PDict d" and "f = engineered d ar rd mr enc"
    and "py_truediv (dict_get d ''availability_365'' (PInt 365)) (PInt 365) = Inr ar"
    and "(if py_gt_int (dict_get d ''number_of_reviews'' (PInt 0)) 0 = Inr True
          then py_truediv (dict_get d ''reviews_per_month'' (PInt 0))
                          (dict_get d ''number_of_reviews'' (PInt 0))
          else Inr (PInt 0)) = Inr rd"
    and "py_gt_int (dict_get d ''number_of_reviews'' (PInt 0)) 0 \<noteq> Inl TypeError"
    and "py_truediv (dict_get d ''minimum_nights'' (PInt 1)) (PInt 365) = Inr mr"
    and "freq_get (dict_get d ''neighbourhood'' (PStr ''Harlem'')) = Inr enc"
proof -
  from assms obtain d where d: "input_data = PDict d" and b: "engineer_body d = Inr f"
    by (auto simp: engineer_features_def split: pyval.splits)
  from b [unfolded engineer_body_closed and_then_Inr_iff]
  obtain ar has rd mr enc where
    "py_truediv (dict_get d ''availability_365'' (PInt 365)) (PInt 365) = Inr ar"
    "py_gt_int (dict_get d ''number_of_reviews'' (PInt 0)) 0 = Inr has"
    "(if has then py_truediv (dict_get d ''reviews_per_month'' (PInt 0))
                          (dict_get d ''number_of_reviews'' (PInt 0))
          else Inr (PInt 0)) = Inr rd"
    "py_truediv (dict_get d ''minimum_nights'' (PInt 1)) (PInt 365) = Inr mr"
    "freq_get (dict_get d ''neighbourhood'' (PStr ''Harlem'')) = Inr enc"
    "f = engineered d ar rd mr enc"
    by auto
  then show thesis using d that [of d ar rd mr enc] by (cases has) auto
qed

text \<open>
  C10. Whatever the raw input, a feature set that engineer_features returns has the same
  19 keys, in the same order: the seven copied raw fields, the three ratios, the three
  room-type indicators, the five neighbourhood-group indicators and neighbourhood_encoded.
\<close>

theorem engineer_features_keys:
  assumes "engineer_features input_data = Inr features_dict"
  shows "map fst features_dict = feature_names \<and> distinct feature_names \<and>
         length feature_names = 19"
proof -
  from assms obtain d ar rd mr enc where "features_dict = engineered d ar rd mr enc"
    by (rule engineer_features_Inr)
  then have "map fst features_dict = feature_names"
    by (simp add: engineered_def feature_names_def)
  moreover have "distinct feature_names" by (simp add: feature_names_def)
  moreover have "length feature_names = 19" by (simp add: feature_names_def)
  ultimately show ?thesis by simp
qed

theorem engineer_features_keys_witness:
  "engineer_features (PDict []) =
     Inr [(''latitude'', PFloat 40.7580), (''longitude'', PFloat (- 73.9855)),
          (''minimum_nights'', PInt 1), (''number_of_reviews'', PInt 0),
          (''reviews_per_month'', PInt 0), (''calculated_host_listings_count'', PInt 1),
          (''availability_365'', PInt 365), (''availability_ratio'', PFloat 1),
          (''reviews_density'', PInt 0), (''min_nights_ratio'', PFloat (1 / 365)),
          (''room_type_Entire home/apt'', PInt 1), (''room_type_Private room'', PInt 0),
          (''room_type_Shared room'', PInt 0), (''neighbourhood_group_Bronx'', PInt 0),
          (''neighbourhood_group_Brooklyn'', PInt 0), (''neighbourhood_group_Manhattan'', PInt 1),
          (''neighbourhood_group_Queens'', PInt 0), (''neighbourhood_group_Staten Island'', PInt 0),
          (''neighbourhood_encoded'', PFloat 0.054)] \<and>
   map fst [(''latitude'', PFloat 40.7580), (''longitude'', PFloat (- 73.9855)),
          (''minimum_nights'', PInt 1), (''number_of_reviews'', PInt 0),
          (''reviews_per_month'', PInt 0), (''calculated_host_listings_count'', PInt 1),
          (''availability_365'', PInt 365), (''availability_ratio'', PFloat 1),
          (''reviews_density'', PInt 0), (''min_nights_ratio'', PFloat (1 / 365)),
          (''room_type_Entire home/apt'', PInt 1), (''room_type_Private room'', PInt 0),
          (''room_type_Shared room'', PInt 0), (''neighbourhood_group_Bronx'', PInt 0),
          (''neighbourhood_group_Brooklyn'', PInt 0), (''neighbourhood_group_Manhattan'', PInt 1),
          (''neighbourhood_group_Queens'', PInt 0), (''neighbourhood_group_Staten Island'', PInt 0),
          (''neighbourhood_encoded'', PFloat 0.054)] = feature_names"
proof -
  have run: "engineer_features (PDict []) =
     Inr [(''latitude'', PFloat 40.7580), (''longitude'', PFloat (- 73.9855)),
          (''minimum_nights'', PInt 1), (''number_of_reviews'', PInt 0),
          (''reviews_per_month'', PInt 0), (''calculated_host_listings_count'', PInt 1),
          (''availability_365'', PInt 365), (''availability_ratio'', PFloat 1),
          (''reviews_density'', PInt 0), (''min_nights_ratio'', PFloat (1 / 365)),
          (''room_type_Entire home/apt'', PInt 1), (''room_type_Private room'', PInt 0),
          (''room_type_Shared room'', PInt 0), (''neighbourhood_group_Bronx'', PInt 0),
          (''neighbourhood_group_Brooklyn'', PInt 0), (''neighbourhood_group_Manhattan'', PInt 1),
          (''neighbourhood_group_Queens'', PInt 0), (''neighbourhood_group_Staten Island'', PInt 0),
          (''neighbourhood_encoded'', PFloat 0.054)]"
    by (simp add: engineer_features_def engineer_body_closed engineered_def dict_get_def
        py_truediv_def float_bound_def py_gt_int_def indicator_def neighbourhood_freq_def)
  from engineer_features_keys [OF run] run show ?thesis by simp
qed

section \<open>Feature Engineer: one-hot groups\<close>

lemma map_of_engineered_room:
  "\<forall>c \<in> set room_types.
   map_of (engineered d ar rd mr enc) (''room_type_'' @ c) =
     Some (if dict_get d ''room_type'' (PStr ''Entire home/apt'') = PStr c then PInt 1 else PInt 0)"
  by (simp add: engineered_def room_types_def indicator_def)

lemma map_of_engineered_group:
  "\<forall>c \<in> set neighbourhood_groups.
   map_of (engineered d ar rd mr enc) (''neighbourhood_group_'' @ c) =
     Some (if dict_get d ''neighbourhood_group'' (PStr ''Manhattan'') = PStr c then PInt 1 else PInt 0)"
  by (simp add: engineered_def neighbourhood_groups_def indicator_def)

lemma count_matches:
  "distinct cats \<Longrightarrow>
   length (filter (\<lambda>c. v = PStr c) cats) = (if \<exists>c \<in> set cats. v = PStr c then 1 else 0)"
  by (induction cats) auto

lemma ones_indicators:
  assumes "distinct cats"
    and "\<forall>c \<in> set cats. map_of f (prefix @ c) = Some (if v = PStr c then PInt 1 else PInt 0)"
  shows "ones f prefix cats = (if \<exists>c \<in> set cats. v = PStr c then 1 else 0)"
proof -
  have "filter (\<lambda>c. map_of f (prefix @ c) = Some (PInt 1)) cats = filter (\<lambda>c. v = PStr c) cats"
    using assms(2) by (intro filter_cong) auto
  then show ?thesis using count_matches [OF assms(1)] by (simp add: ones_def)
qed

text \<open>
  C7. In a feature set that engineer_features returns, each room-type indicator and each
  neighbourhood-group indicator is 1 if the (possibly defaulted) raw value is that
  category and 0 otherwise; so exactly one indicator of a group is 1 when the value is in
  the enumeration, and none is for any other value.
\<close>

theorem one_hot_exclusive:
  assumes "engineer_features (PDict d) = Inr f"
  shows "(\<forall>c \<in> set room_types.
            map_of f (''room_type_'' @ c) =
              Some (if dict_get d ''room_type'' (PStr ''Entire home/apt'') = PStr c
                    then PInt 1 else PInt 0)) \<and>
         ones f ''room_type_'' room_types =
           (if \<exists>c \<in> set room_types. dict_get d ''room_type'' (PStr ''Entire home/apt'') = PStr c
            then 1 else 0) \<and>
         (\<forall>c \<in> set neighbourhood_groups.
            map_of f (''neighbourhood_group_'' @ c) =
              Some (if dict_get d ''neighbourhood_group'' (PStr ''Manhattan'') = PStr c
                    then PInt 1 else PInt 0)) \<and>
         ones f ''neighbourhood_group_'' neighbourhood_groups =
           (if \<exists>c \<in> set neighbourhood_groups.
                 dict_get d ''neighbourhood_group'' (PStr ''Manhattan'') = PStr c
            then 1 else 0)"
proof -
  from assms obtain d' ar rd mr enc where "PDict d = PDict d'" and "f = engineered d' ar rd mr enc"
    by (rule engineer_features_Inr)
  then have f: "f = engineered d ar rd mr enc" by simp
  have room: "\<forall>c \<in> set room_types.
            map_of f (''room_type_'' @ c) =
              Some (if dict_get d ''room_type'' (PStr ''Entire home/apt'') = PStr c
                    then PInt 1 else PInt 0)"
    unfolding f by (rule map_of_engineered_room)
  have grp: "\<forall>c \<in> set neighbourhood_groups.
            map_of f (''neighbourhood_group_'' @ c) =
              Some (if dict_get d ''neighbourhood_group'' (PStr ''Manhattan'') = PStr c
                    then PInt 1 else PInt 0)"
    unfolding f by (rule map_of_engineered_group)
  have d1: "distinct room_types" by (simp add: room_types_def)
  have d2: "distinct neighbourhood_groups" by (simp add: neighbourhood_groups_def)
  from room grp ones_indicators [OF d1 room] ones_indicators [OF d2 grp]
  show ?thesis by blast
qed

lemma engineer_features_run:
  "engineer_features (PDict [(''room_type'', PStr ''Shared room''),
                             (''neighbourhood_group'', PStr ''Hoboken'')]) =
   Inr (engineered [(''room_type'', PStr ''Shared room''), (''neighbourhood_group'', PStr ''Hoboken'')]
          (PFloat 1) (PInt 0) (PFloat (1 / 365)) (PFloat 0.054))"
  by (simp add: engineer_features_def engineer_body_closed dict_get_def
        py_truediv_def float_bound_def py_gt_int_def neighbourhood_freq_def)

theorem one_hot_exclusive_witness:
  "engineer_features (PDict [(''room_type'', PStr ''Shared room''),
                             (''neighbourhood_group'', PStr ''Hoboken'')]) =
     Inr (engineered [(''room_type'', PStr ''Shared room''), (''neighbourhood_group'', PStr ''Hoboken'')]
          (PFloat 1) (PInt 0) (PFloat (1 / 365)) (PFloat 0.054)) \<and>
   ones (engineered [(''room_type'', PStr ''Shared room''), (''neighbourhood_group'', PStr ''Hoboken'')]
          (PFloat 1) (PInt 0) (PFloat (1 / 365)) (PFloat 0.054)) ''room_type_'' room_types = 1 \<and>
   ones (engineered [(''room_type'', PStr ''Shared room''), (''neighbourhood_group'', PStr ''Hoboken'')]
          (PFloat 1) (PInt 0) (PFloat (1 / 365)) (PFloat 0.054))
        ''neighbourhood_group_'' neighbourhood_groups = 0"
proof -
  have rt: "dict_get [(''room_type'', PStr ''Shared room''), (''neighbourhood_group'', PStr ''Hoboken'')]
              ''room_type'' (PStr ''Entire home/apt'') = PStr ''Shared room''"
    by (simp add: dict_get_def)
  have ng: "dict_get [(''room_type'', PStr ''Shared room''), (''neighbourhood_group'', PStr ''Hoboken'')]
              ''neighbourhood_group'' (PStr ''Manhattan'') = PStr ''Hoboken''"
    by (simp add: dict_get_def)
  have in1: "\<exists>c \<in> set room_types. PStr ''Shared room'' = PStr c" by (simp add: room_types_def)
  have in2: "\<not> (\<exists>c \<in> set neighbourhood_groups. PStr ''Hoboken'' = PStr c)"
    by (simp add: neighbourhood_groups_def)
  from one_hot_exclusive [OF engineer_features_run] engineer_features_run in1 in2
  show ?thesis unfolding rt ng by simp
qed

section \<open>Feature Engineer: where it is defined\<close>

lemma map_of_engineered:
  "map_of (engineered d ar rd mr enc) ''availability_ratio'' = Some ar"
  "map_of (engineered d ar rd mr enc) ''reviews_density'' = Some rd"
  "map_of (engineered d ar rd mr enc) ''min_nights_ratio'' = Some mr"
  "map_of (engineered d ar rd mr enc) ''neighbourhood_encoded'' = Some enc"
  "map_of (engineered d ar rd mr enc) ''room_type_Entire home/apt'' =
     Some (indicator (dict_get d ''room_type'' (PStr ''Entire home/apt'')) ''Entire home/apt'')"
  "map_of (engineered d ar rd mr enc) ''neighbourhood_group_Manhattan'' =
     Some (indicator (dict_get d ''neighbourhood_group'' (PStr ''Manhattan'')) ''Manhattan'')"
  by (simp_all add: engineered_def)

lemma map_of_engineered_raw:
  "\<forall>kd \<in> set raw_defaults.
     map_of (engineered d ar rd mr enc) (fst kd) = Some (dict_get d (fst kd) (snd kd))"
  by (simp add: engineered_def raw_defaults_def)

lemma freq_get_hashable:
  "hashable v \<Longrightarrow>
   freq_get v = Inr (PFloat (case v of PStr s \<Rightarrow> (case map_of neighbourhood_freq s of
                                                    None \<Rightarrow> 0.01 | Some x \<Rightarrow> x)
                             | _ \<Rightarrow> 0.01))"
  by (cases v) simp_all

lemma freq_get_unhashable: "\<not> hashable v \<Longrightarrow> freq_get v = Inl TypeError"
  by (cases v) simp_all

lemma is_number_simps:
  "is_number (PBool b)" "is_number (PInt i)" "is_number (PFloat x)"
  "\<not> is_number PNone" "\<not> is_number (PStr s)" "\<not> is_number (PList xs)"
  "\<not> is_number (PDict d)"
  by (simp_all add: is_number_def)

lemma py_truediv_not_number:
  "\<not> is_number a \<or> \<not> is_number b \<Longrightarrow> py_truediv a b = Inl TypeError"
  by (auto simp: py_truediv_def is_number_def)

lemma py_truediv_ints:
  "py_truediv (PInt i) (PInt j) =
     (if j = 0 then Inl ZeroDivisionError
      else if float_bound \<le> \<bar>real_of_int i / real_of_int j\<bar> then Inl OverflowError
      else Inr (PFloat (real_of_int i / real_of_int j)))"
  by (simp add: py_truediv_def)

lemma py_truediv_fits:
  assumes "quotient_fits a b" and "py_num b \<noteq> Some 0"
  shows "py_truediv a b = Inr (PFloat (the (py_num a) / the (py_num b)))"
proof -
  from assms(1) obtain x y where x: "py_num a = Some x" and y: "py_num b = Some y"
    by (auto simp: quotient_fits_def is_number_def)
  with assms(2) have y0: "y \<noteq> 0" by simp
  show ?thesis
  proof (cases "py_int a")
    case None
    with x have fa: "to_float a = Inr x" by (simp add: to_float_def)
    show ?thesis
    proof (cases "py_int b")
      case nb: None
      with y have "to_float b = Inr y" by (simp add: to_float_def)
      with None nb x y y0 fa show ?thesis by (simp add: py_truediv_def)
    next
      case (Some j)
      with y have yj: "y = real_of_int j" by (cases b) (auto split: if_splits)
      from assms(1) None Some have "\<bar>real_of_int j\<bar> < float_bound"
        by (simp add: quotient_fits_def)
      with Some yj have "to_float b = Inr y" by (simp add: to_float_def)
      with None Some x y y0 fa show ?thesis by (simp add: py_truediv_def)
    qed
  next
    case (Some i)
    with x have xi: "x = real_of_int i" by (cases a) (auto split: if_splits)
    show ?thesis
    proof (cases "py_int b")
      case None
      with y have fb: "to_float b = Inr y" by (simp add: to_float_def)
      from assms(1) None Some have "\<bar>real_of_int i\<bar> < float_bound"
        by (simp add: quotient_fits_def)
      with Some xi have "to_float a = Inr x" by (simp add: to_float_def)
      with None Some x y y0 fb show ?thesis by (simp add: py_truediv_def)
    next
      case sj: (Some j)
      with y have yj: "y = real_of_int j" by (cases b) (auto split: if_splits)
      from assms(1) Some sj have "\<bar>real_of_int i / real_of_int j\<bar> < float_bound"
        by (simp add: quotient_fits_def)
      with Some sj x y xi yj y0 show ?thesis by (simp add: py_truediv_def)
    qed
  qed
qed

lemma py_truediv_raises:
  assumes "\<not> quotient_fits a b" and "py_num b \<noteq> Some 0"
  shows "py_truediv a b = Inl TypeError \<or> py_truediv a b = Inl OverflowError"
proof (cases "is_number a \<and> is_number b")
  case False
  then show ?thesis by (simp add: py_truediv_not_number)
next
  case True
  then obtain x y where x: "py_num a = Some x" and y: "py_num b = Some y"
    by (auto simp: is_number_def)
  with assms(2) have y0: "y \<noteq> 0" by simp
  show ?thesis
  proof (cases "py_int a")
    case None
    with x have fa: "to_float a = Inr x" by (simp add: to_float_def)
    show ?thesis
    proof (cases "py_int b")
      case nb: None
      with assms(1) None True show ?thesis by (simp add: quotient_fits_def)
    next
      case (Some j)
      from assms(1) None Some True have "float_bound \<le> \<bar>real_of_int j\<bar>"
        by (simp add: quotient_fits_def)
      with Some have "to_float b = Inl OverflowError" by (simp add: to_float_def)
      with None Some x y fa show ?thesis by (simp add: py_truediv_def)
    qed
  next
    case (Some i)
    show ?thesis
    proof (cases "py_int b")
      case None
      from assms(1) None Some True have "float_bound \<le> \<bar>real_of_int i\<bar>"
        by (simp add: quotient_fits_def)
      with Some have "to_float a = Inl OverflowError" by (simp add: to_float_def)
      with None Some x y show ?thesis by (simp add: py_truediv_def)
    next
      case sj: (Some j)
      with y have yj: "y = real_of_int j" by (cases b) (auto split: if_splits)
      from assms(1) Some sj True have "float_bound \<le> \<bar>real_of_int i / real_of_int j\<bar>"
        by (simp add: quotient_fits_def)
      with Some sj x y yj y0 show ?thesis by (simp add: py_truediv_def)
    qed
  qed
qed

lemma engineer_features_numeric:
  assumes "numeric_fields d"
  shows "engineer_features (PDict d) =
     Inr (engineered d
            (PFloat (the (py_num (dict_get d ''availability_365'' (PInt 365))) / 365))
            (if 0 < the (py_num (dict_get d ''number_of_reviews'' (PInt 0)))
             then PFloat (the (py_num (dict_get d ''reviews_per_month'' (PInt 0))) /
                          the (py_num (dict_get d ''number_of_reviews'' (PInt 0))))
             else PInt 0)
            (PFloat (the (py_num (dict_get d ''minimum_nights'' (PInt 1))) / 365))
            (PFloat (case dict_get d ''neighbourhood'' (PStr ''Harlem'') of
                       PStr s \<Rightarrow> (case map_of neighbourhood_freq s of None \<Rightarrow> 0.01 | Some x \<Rightarrow> x)
                     | _ \<Rightarrow> 0.01)))"
proof -
  from assms obtain n where
    a: "quotient_fits (dict_get d ''availability_365'' (PInt 365)) (PInt 365)" and
    n: "py_num (dict_get d ''number_of_reviews'' (PInt 0)) = Some n" and
    m: "quotient_fits (dict_get d ''minimum_nights'' (PInt 1)) (PInt 365)" and
    h: "hashable (dict_get d ''neighbourhood'' (PStr ''Harlem''))"
    by (auto simp: numeric_fields_def is_number_def)
  have ar: "py_truediv (dict_get d ''availability_365'' (PInt 365)) (PInt 365) =
            Inr (PFloat (the (py_num (dict_get d ''availability_365'' (PInt 365))) / 365))"
    using py_truediv_fits [OF a] by simp
  have mr: "py_truediv (dict_get d ''minimum_nights'' (PInt 1)) (PInt 365) =
            Inr (PFloat (the (py_num (dict_get d ''minimum_nights'' (PInt 1))) / 365))"
    using py_truediv_fits [OF m] by simp
  have gt: "py_gt_int (dict_get d ''number_of_reviews'' (PInt 0)) 0 = Inr (0 < n)"
    using n by (simp add: py_gt_int_def)
  show ?thesis
  proof (cases "0 < n")
    case True
    with assms gt have "quotient_fits (dict_get d ''reviews_per_month'' (PInt 0))
                          (dict_get d ''number_of_reviews'' (PInt 0))"
      by (simp add: numeric_fields_def)
    from py_truediv_fits [OF this] n True
    have rd: "py_truediv (dict_get d ''reviews_per_month'' (PInt 0))
                (dict_get d ''number_of_reviews'' (PInt 0)) =
              Inr (PFloat (the (py_num (dict_get d ''reviews_per_month'' (PInt 0))) / n))"
      by simp
    from True n show ?thesis
      by (simp add: engineer_features_def engineer_body_closed ar mr gt rd
          freq_get_hashable [OF h])
  next
    case False
    with n show ?thesis
      by (simp add: engineer_features_def engineer_body_closed ar mr gt
          freq_get_hashable [OF h])
  qed
qed

lemma engineer_features_raises:
  assumes "\<not> numeric_fields d"
  shows "engineer_features (PDict d) = Inl TypeError \<or>
         engineer_features (PDict d) = Inl OverflowError"
proof (cases "quotient_fits (dict_get d ''availability_365'' (PInt 365)) (PInt 365)")
  case False
  from py_truediv_raises [OF False] show ?thesis
    by (auto simp: engineer_features_def engineer_body_closed)
next
  case a: True
  have ar: "py_truediv (dict_get d ''availability_365'' (PInt 365)) (PInt 365) =
            Inr (PFloat (the (py_num (dict_get d ''availability_365'' (PInt 365))) / 365))"
    using py_truediv_fits [OF a] by simp
  show ?thesis
  proof (cases "py_num (dict_get d ''number_of_reviews'' (PInt 0))")
    case None
    then show ?thesis
      by (simp add: engineer_features_def engineer_body_closed ar py_gt_int_def)
  next
    case (Some n)
    then have gt: "py_gt_int (dict_get d ''number_of_reviews'' (PInt 0)) 0 = Inr (0 < n)"
      by (simp add: py_gt_int_def)
    have dens: "(\<exists>rd. (if 0 < n
                  then py_truediv (dict_get d ''reviews_per_month'' (PInt 0))
                         (dict_get d ''number_of_reviews'' (PInt 0))
                  else Inr (PInt 0)) = Inr rd) \<or>
          (0 < n \<and>
           \<not> quotient_fits (dict_get d ''reviews_per_month'' (PInt 0))
                (dict_get d ''number_of_reviews'' (PInt 0)))"
    proof (cases "0 < n \<and> \<not> quotient_fits (dict_get d ''reviews_per_month'' (PInt 0))
                                (dict_get d ''number_of_reviews'' (PInt 0))")
      case True
      then show ?thesis by simp
    next
      case False
      show ?thesis
      proof (cases "0 < n")
        case pos: True
        with False have "quotient_fits (dict_get d ''reviews_per_month'' (PInt 0))
                           (dict_get d ''number_of_reviews'' (PInt 0))"
          by simp
        from py_truediv_fits [OF this] Some pos show ?thesis by simp
      next
        case False
        then show ?thesis by simp
      qed
    qed
    from dens show ?thesis
    proof
      assume "0 < n \<and>
           \<not> quotient_fits (dict_get d ''reviews_per_month'' (PInt 0))
                (dict_get d ''number_of_reviews'' (PInt 0))"
      then have pos: "0 < n"
        and nf: "\<not> quotient_fits (dict_get d ''reviews_per_month'' (PInt 0))
                (dict_get d ''number_of_reviews'' (PInt 0))"
        by simp_all
      from pos Some have "py_num (dict_get d ''number_of_reviews'' (PInt 0)) \<noteq> Some 0"
        by simp
      from py_truediv_raises [OF nf this] pos show ?thesis
        by (auto simp: engineer_features_def engineer_body_closed ar gt)
    next
      assume "\<exists>rd. (if 0 < n
                  then py_truediv (dict_get d ''reviews_per_month'' (PInt 0))
                         (dict_get d ''number_of_reviews'' (PInt 0))
                  else Inr (PInt 0)) = Inr rd"
      then obtain rd where rd: "(if 0 < n
                  then py_truediv (dict_get d ''reviews_per_month'' (PInt 0))
                         (dict_get d ''number_of_reviews'' (PInt 0))
                  else Inr (PInt 0)) = Inr rd"
        by blast
      with assms a Some gt
      have fits: "(0 < n \<longrightarrow> quotient_fits (dict_get d ''reviews_per_month'' (PInt 0))
                (dict_get d ''number_of_reviews'' (PInt 0)))"
        using py_truediv_raises [of "dict_get d ''reviews_per_month'' (PInt 0)"
            "dict_get d ''number_of_reviews'' (PInt 0)"]
        by (cases "0 < n") auto
      show ?thesis
      proof (cases "quotient_fits (dict_get d ''minimum_nights'' (PInt 1)) (PInt 365)")
        case False
        from py_truediv_raises [OF False] show ?thesis
          by (auto simp: engineer_features_def engineer_body_closed ar gt rd)
      next
        case m: True
        have mr: "py_truediv (dict_get d ''minimum_nights'' (PInt 1)) (PInt 365) =
            Inr (PFloat (the (py_num (dict_get d ''minimum_nights'' (PInt 1))) / 365))"
          using py_truediv_fits [OF m] by simp
        from assms a m Some gt fits
        have "\<not> hashable (dict_get d ''neighbourhood'' (PStr ''Harlem''))"
          by (auto simp: numeric_fields_def is_number_def)
        from freq_get_unhashable [OF this] show ?thesis
          by (simp add: engineer_features_def engineer_body_closed ar gt rd mr)
      qed
    qed
  qed
qed

lemma engineer_features_not_dict:
  "(\<forall>d. input_data \<noteq> PDict d) \<Longrightarrow> engineer_features input_data = Inl AttributeError"
  by (cases input_data) (simp_all add: engineer_features_def)

text \<open>
  C6, as amended. engineer_features is a function of its argument. On a raw input
  mapping in which availability_365, number_of_reviews and minimum_nights (present or
  defaulted) are numbers, reviews_per_month is a number when number_of_reviews is
  positive, each quotient the function forms fits a float (the quotient of two ints, and
  the int divided by or dividing a float, is below \<open>2 ^ 1024 - 2 ^ 970\<close> in magnitude),
  and neighbourhood is not a list or an object, it returns a feature set; in
  it every copied raw field holds the raw value or, when the field is absent, its
  default; an absent room_type, neighbourhood_group or neighbourhood acts as
  'Entire home/apt', 'Manhattan' and 'Harlem'; a neighbourhood that is not a name of the
  frequency table gives neighbourhood_encoded = 0.01; reviews_density is 0 when
  number_of_reviews equals 0, whatever reviews_per_month is, and the quotient otherwise.
\<close>

theorem engineer_features_defined_on_numbers:
  assumes "numeric_fields d"
  shows "\<exists>f. engineer_features (PDict d) = Inr f \<and>
     (\<forall>kd \<in> set raw_defaults. map_of f (fst kd) = Some (dict_get d (fst kd) (snd kd))) \<and>
     (map_of d ''room_type'' = None \<longrightarrow> map_of f ''room_type_Entire home/apt'' = Some (PInt 1)) \<and>
     (map_of d ''neighbourhood_group'' = None \<longrightarrow>
        map_of f ''neighbourhood_group_Manhattan'' = Some (PInt 1)) \<and>
     (map_of d ''neighbourhood'' = None \<longrightarrow>
        map_of f ''neighbourhood_encoded'' = Some (PFloat 0.054)) \<and>
     (\<forall>v. map_of d ''neighbourhood'' = Some v \<longrightarrow>
          (\<forall>s. v = PStr s \<longrightarrow> map_of neighbourhood_freq s = None) \<longrightarrow>
          map_of f ''neighbourhood_encoded'' = Some (PFloat 0.01)) \<and>
     (py_num (dict_get d ''number_of_reviews'' (PInt 0)) = Some 0 \<longrightarrow>
        map_of f ''reviews_density'' = Some (PInt 0)) \<and>
     (\<forall>n r. py_num (dict_get d ''number_of_reviews'' (PInt 0)) = Some n \<longrightarrow> 0 < n \<longrightarrow>
            py_num (dict_get d ''reviews_per_month'' (PInt 0)) = Some r \<longrightarrow>
            map_of f ''reviews_density'' = Some (PFloat (r / n)))"
proof -
  note run = engineer_features_numeric [OF assms]
  have c1: "map_of d ''room_type'' = None \<Longrightarrow>
        indicator (dict_get d ''room_type'' (PStr ''Entire home/apt'')) ''Entire home/apt'' = PInt 1"
    by (simp add: dict_get_def indicator_def)
  have c2: "map_of d ''neighbourhood_group'' = None \<Longrightarrow>
        indicator (dict_get d ''neighbourhood_group'' (PStr ''Manhattan'')) ''Manhattan'' = PInt 1"
    by (simp add: dict_get_def indicator_def)
  have c3: "map_of d ''neighbourhood'' = None \<Longrightarrow>
        (case dict_get d ''neighbourhood'' (PStr ''Harlem'') of
           PStr s \<Rightarrow> (case map_of neighbourhood_freq s of None \<Rightarrow> 0.01 | Some x \<Rightarrow> x)
         | _ \<Rightarrow> 0.01) = (0.054 :: real)"
    by (simp add: dict_get_def neighbourhood_freq_def)
  have c4: "map_of d ''neighbourhood'' = Some v \<Longrightarrow>
        (\<forall>s. v = PStr s \<longrightarrow> map_of neighbourhood_freq s = None) \<Longrightarrow>
        (case dict_get d ''neighbourhood'' (PStr ''Harlem'') of
           PStr s \<Rightarrow> (case map_of neighbourhood_freq s of None \<Rightarrow> 0.01 | Some x \<Rightarrow> x)
         | _ \<Rightarrow> 0.01) = (0.01 :: real)" for v
    by (cases v) (simp_all add: dict_get_def)
  define f where "f = engineered d
            (PFloat (the (py_num (dict_get d ''availability_365'' (PInt 365))) / 365))
            (if 0 < the (py_num (dict_get d ''number_of_reviews'' (PInt 0)))
             then PFloat (the (py_num (dict_get d ''reviews_per_month'' (PInt 0))) /
                          the (py_num (dict_get d ''number_of_reviews'' (PInt 0))))
             else PInt 0)
            (PFloat (the (py_num (dict_get d ''minimum_nights'' (PInt 1))) / 365))
            (PFloat (case dict_get d ''neighbourhood'' (PStr ''Harlem'') of
                       PStr s \<Rightarrow> (case map_of neighbourhood_freq s of None \<Rightarrow> 0.01 | Some x \<Rightarrow> x)
                     | _ \<Rightarrow> 0.01))"
  have g0: "engineer_features (PDict d) = Inr f"
    unfolding f_def by (rule run)
  have g1: "\<forall>kd \<in> set raw_defaults. map_of f (fst kd) = Some (dict_get d (fst kd) (snd kd))"
    unfolding f_def by (rule map_of_engineered_raw)
  have g2: "map_of d ''room_type'' = None \<longrightarrow>
        map_of f ''room_type_Entire home/apt'' = Some (PInt 1)"
    unfolding f_def map_of_engineered using c1 by simp
  have g3: "map_of d ''neighbourhood_group'' = None \<longrightarrow>
        map_of f ''neighbourhood_group_Manhattan'' = Some (PInt 1)"
    unfolding f_def map_of_engineered using c2 by simp
  have g4: "map_of d ''neighbourhood'' = None \<longrightarrow>
        map_of f ''neighbourhood_encoded'' = Some (PFloat 0.054)"
    unfolding f_def map_of_engineered using c3 by simp
  have g5: "\<forall>v. map_of d ''neighbourhood'' = Some v \<longrightarrow>
          (\<forall>s. v = PStr s \<longrightarrow> map_of neighbourhood_freq s = None) \<longrightarrow>
          map_of f ''neighbourhood_encoded'' = Some (PFloat 0.01)"
    unfolding f_def map_of_engineered using c4 by simp
  have g6: "py_num (dict_get d ''number_of_reviews'' (PInt 0)) = Some 0 \<longrightarrow>
        map_of f ''reviews_density'' = Some (PInt 0)"
    unfolding f_def map_of_engineered by simp
  have g7: "\<forall>n r. py_num (dict_get d ''number_of_reviews'' (PInt 0)) = Some n \<longrightarrow> 0 < n \<longrightarrow>
            py_num (dict_get d ''reviews_per_month'' (PInt 0)) = Some r \<longrightarrow>
            map_of f ''reviews_density'' = Some (PFloat (r / n))"
    unfolding f_def map_of_engineered by simp
  show ?thesis by (rule exI [of _ f]) (intro conjI g0 g1 g2 g3 g4 g5 g6 g7)
qed

theorem engineer_features_defined_on_numbers_witness:
  "numeric_fields [(''number_of_reviews'', PInt 0), (''reviews_per_month'', PStr ''n/a''),
                   (''neighbourhood'', PStr ''SoHo'')] \<and>
   feature_of (engineer_features (PDict [(''number_of_reviews'', PInt 0),
      (''reviews_per_month'', PStr ''n/a''), (''neighbourhood'', PStr ''SoHo'')]))
      ''reviews_density'' = Some (PInt 0) \<and>
   feature_of (engineer_features (PDict [(''number_of_reviews'', PInt 0),
      (''reviews_per_month'', PStr ''n/a''), (''neighbourhood'', PStr ''SoHo'')]))
      ''neighbourhood_encoded'' = Some (PFloat 0.01) \<and>
   feature_of (engineer_features (PDict [(''number_of_reviews'', PInt 0),
      (''reviews_per_month'', PStr ''n/a''), (''neighbourhood'', PStr ''SoHo'')]))
      ''availability_365'' = Some (PInt 365)"
proof -
  let ?d = "[(''number_of_reviews'', PInt 0), (''reviews_per_month'', PStr ''n/a''),
             (''neighbourhood'', PStr ''SoHo'')]"
  have nf: "numeric_fields ?d"
    by (simp add: numeric_fields_def quotient_fits_def is_number_def dict_get_def py_gt_int_def
        float_bound_def)
  have nb: "map_of ?d ''neighbourhood'' = Some (PStr ''SoHo'')" by simp
  have absent: "\<forall>s. PStr ''SoHo'' = PStr s \<longrightarrow> map_of neighbourhood_freq s = None"
    by (simp add: neighbourhood_freq_def)
  have zero: "py_num (dict_get ?d ''number_of_reviews'' (PInt 0)) = Some 0"
    by (simp add: dict_get_def)
  have dflt: "(''availability_365'', PInt 365) \<in> set raw_defaults"
    by (simp add: raw_defaults_def)
  have av: "dict_get ?d ''availability_365'' (PInt 365) = PInt 365" by (simp add: dict_get_def)
  from engineer_features_defined_on_numbers [OF nf] show ?thesis
  proof (elim exE conjE)
    fix f
    assume run: "engineer_features (PDict ?d) = Inr f"
      and raw: "\<forall>kd \<in> set raw_defaults. map_of f (fst kd) = Some (dict_get ?d (fst kd) (snd kd))"
      and enc: "\<forall>v. map_of ?d ''neighbourhood'' = Some v \<longrightarrow>
            (\<forall>s. v = PStr s \<longrightarrow> map_of neighbourhood_freq s = None) \<longrightarrow>
            map_of f ''neighbourhood_encoded'' = Some (PFloat 0.01)"
      and dens: "py_num (dict_get ?d ''number_of_reviews'' (PInt 0)) = Some 0 \<longrightarrow>
            map_of f ''reviews_density'' = Some (PInt 0)"
    from raw dflt have "map_of f ''availability_365'' = Some (dict_get ?d ''availability_365'' (PInt 365))"
      by (auto simp only: fst_conv snd_conv dest!: bspec)
    with av have "map_of f ''availability_365'' = Some (PInt 365)" by simp
    moreover from enc nb absent have "map_of f ''neighbourhood_encoded'' = Some (PFloat 0.01)"
      by (simp only:)
    moreover from dens zero have "map_of f ''reviews_density'' = Some (PInt 0)" by (simp only:)
    ultimately show ?thesis using nf run by (simp add: feature_of_def)
  qed
qed

text \<open>
  C6 as stated fails: on a raw input mapping whose number_of_reviews is null,
  \<^verbatim>\<open>None > 0\<close> raises TypeError; on one whose availability_365 is the int \<open>10 ^ 400\<close>,
  the division by 365 raises OverflowError.
\<close>

theorem engineer_features_raises_on_null_and_large_int:
  "engineer_features (PDict [(''number_of_reviews'', PNone)]) = Inl TypeError \<and>
   engineer_features (PDict [(''availability_365'', PInt (10 ^ 400))]) = Inl OverflowError"
  by (simp add: engineer_features_def engineer_body_closed dict_get_def py_truediv_def
      float_bound_def py_gt_int_def)

section \<open>Vector Aligner: the aligned vector\<close>

lemma np_float64_storable: "storable v \<Longrightarrow> np_float64 w v = Inr (stored w v)"
  by (cases v) (auto simp: not_le)

lemma np_float64_not_schema: "np_float64 w v \<noteq> Inl schema_unavailable"
  by (cases v) (auto simp: schema_unavailable_def split: sum.splits)

lemma fill_loop_not_schema: "fill_loop w fd cols arr \<noteq> Inl schema_unavailable"
proof (induction cols arbitrary: arr)
  case Nil
  show ?case by simp
next
  case (Cons ic rest)
  obtain i col where ic: "ic = (i, col)" by (cases ic)
  show ?case
  proof (cases "map_of fd col")
    case None
    with Cons show ?thesis by (simp add: ic dict_has_def)
  next
    case (Some v)
    show ?thesis
    proof (cases "np_float64 w v")
      case (Inl e)
      with np_float64_not_schema [of w v] have "e \<noteq> schema_unavailable" by simp
      with Some Inl show ?thesis by (simp add: ic dict_has_def dict_item_def)
    next
      case (Inr x)
      with Some Cons show ?thesis by (simp add: ic dict_has_def dict_item_def)
    qed
  qed
qed

lemma fill_loop_success:
  assumes "\<forall>c \<in> set cols. \<forall>v. map_of fd c = Some v \<longrightarrow> storable v"
  shows "\<exists>arr'. fill_loop w fd (enumerate n cols) arr = Inr arr'"
  using assms
proof (induction cols arbitrary: n arr)
  case Nil
  then show ?case by simp
next
  case (Cons c cs)
  show ?case
  proof (cases "map_of fd c")
    case None
    then show ?thesis using Cons by (simp add: dict_has_def)
  next
    case (Some v)
    with Cons.prems have "storable v" by simp
    then have "np_float64 w v = Inr (stored w v)" by (rule np_float64_storable)
    with Some show ?thesis using Cons by (simp add: dict_has_def dict_item_def)
  qed
qed

lemma fill_loop_result:
  assumes "\<forall>c \<in> set cols. \<forall>v. map_of fd c = Some v \<longrightarrow> storable v"
    and "fill_loop w fd (enumerate n cols) arr = Inr arr'"
  shows "length arr' = length arr \<and>
         (\<forall>j < length arr. arr' ! j =
            (if n \<le> j \<and> j < n + length cols
             then (case map_of fd (cols ! (j - n)) of
                     None \<Rightarrow> arr ! j
                   | Some v \<Rightarrow> stored w v)
             else arr ! j))"
  using assms
proof (induction cols arbitrary: n arr arr')
  case Nil
  then show ?case by simp
next
  case (Cons c cs)
  from Cons.prems(1) have rest: "\<forall>c \<in> set cs. \<forall>v. map_of fd c = Some v \<longrightarrow> storable v"
    by simp
  show ?case
  proof (cases "map_of fd c")
    case None
    with Cons.prems have run: "fill_loop w fd (enumerate (Suc n) cs) arr = Inr arr'"
      by (simp add: dict_has_def)
    from Cons.IH [OF rest run] None show ?thesis
      by (auto simp: nth_Cons' Suc_diff_le not_less_eq_eq)
  next
    case (Some v)
    with Cons.prems have "storable v" by simp
    then have x: "np_float64 w v = Inr (stored w v)" by (rule np_float64_storable)
    with Some Cons.prems
    have run: "fill_loop w fd (enumerate (Suc n) cs) (arr[n := stored w v]) = Inr arr'"
      by (simp add: dict_has_def dict_item_def)
    from Cons.IH [OF rest run] Some show ?thesis
      by (auto simp: nth_Cons' Suc_diff_le not_less_eq_eq nth_list_update split: option.splits)
  qed
qed

lemma fill_loop_zeros:
  assumes "\<forall>c \<in> set cols. \<forall>v. map_of fd c = Some v \<longrightarrow> storable v"
  shows "fill_loop w fd (enumerate 0 cols) (replicate (length cols) 0) =
         Inr (map (\<lambda>c. case map_of fd c of None \<Rightarrow> 0 | Some v \<Rightarrow> stored w v) cols)"
proof -
  from fill_loop_success [OF assms] obtain arr' where
    run: "fill_loop w fd (enumerate 0 cols) (replicate (length cols) 0) = Inr arr'"
    by blast
  from fill_loop_result [OF assms run]
  have len: "length arr' = length cols"
    and nth: "\<forall>j < length cols. arr' ! j =
                (case map_of fd (cols ! j) of None \<Rightarrow> 0 | Some v \<Rightarrow> stored w v)"
    by (simp_all split: option.splits)
  have "arr' = map (\<lambda>c. case map_of fd c of None \<Rightarrow> 0 | Some v \<Rightarrow> stored w v) cols"
    using len nth by (intro nth_equalityI) simp_all
  with run show ?thesis by simp
qed

lemma stored_value:
  "py_num v = Some x \<Longrightarrow> (\<forall>i. v = PInt i \<longrightarrow> \<bar>i\<bar> \<le> 2 ^ 53) \<Longrightarrow> stored w v = x"
  by (cases v) auto

text \<open>
  C2, as amended. prepare_features_array fails with the "Feature columns not loaded"
  error if and only if no schema is loaded. With a schema loaded and a feature set in
  which every value the schema names is a float, a bool or an int within the float
  range, it succeeds: the vector has one entry per schema position (so its length is the
  schema's), and the entry is the float stored for the feature named there, or 0 when the
  feature set has no such name. The float stored is the value itself, except that an int
  beyond \<open>2 ^ 53\<close> in magnitude is rounded to a binary64.
\<close>

theorem prepare_features_array_aligns:
  "(prepare_features_array w g features_dict = Inl schema_unavailable \<longleftrightarrow>
      feature_columns g = None) \<and>
   (\<forall>cols. feature_columns g = Some cols \<longrightarrow>
      (\<forall>c \<in> set cols. \<forall>v. map_of features_dict c = Some v \<longrightarrow> storable v) \<longrightarrow>
      prepare_features_array w g features_dict =
        Inr (map (\<lambda>c. case map_of features_dict c of
                         None \<Rightarrow> 0
                       | Some v \<Rightarrow> stored w v) cols)) \<and>
   (\<forall>v x. py_num v = Some x \<longrightarrow> (\<forall>i. v = PInt i \<longrightarrow> \<bar>i\<bar> \<le> 2 ^ 53) \<longrightarrow> stored w v = x)"
proof (intro conjI allI impI)
  show "prepare_features_array w g features_dict = Inl schema_unavailable \<longleftrightarrow>
        feature_columns g = None"
    by (cases "feature_columns g")
       (simp_all add: prepare_features_array_def fill_loop_not_schema)
next
  fix cols
  assume "feature_columns g = Some cols"
    and "\<forall>c \<in> set cols. \<forall>v. map_of features_dict c = Some v \<longrightarrow> storable v"
  then show "prepare_features_array w g features_dict =
        Inr (map (\<lambda>c. case map_of features_dict c of
                         None \<Rightarrow> 0
                       | Some v \<Rightarrow> stored w v) cols)"
    by (simp add: prepare_features_array_def fill_loop_zeros)
next
  fix v x
  assume "py_num v = Some x" and "\<forall>i. v = PInt i \<longrightarrow> \<bar>i\<bar> \<le> 2 ^ 53"
  then show "stored w v = x" by (rule stored_value)
qed

theorem prepare_features_array_aligns_witness:
  "prepare_features_array (a_world (Inr PNone) sink_down)
     (some_globals None None (Some [''room_type_Private room'', ''room_type'', ''latitude'']))
     [(''latitude'', PFloat 40.5), (''room_type_Private room'', PInt 1)] = Inr [1, 0, 40.5] \<and>
   prepare_features_array (a_world (Inr PNone) sink_down)
     (some_globals None None (Some [''room_type_Private room'', ''room_type'', ''latitude'']))
     [(''latitude'', PFloat 40.5), (''room_type_Private room'', PInt 1)] \<noteq>
     Inl schema_unavailable"
proof -
  let ?w = "a_world (Inr PNone) sink_down"
  let ?g = "some_globals None None (Some [''room_type_Private room'', ''room_type'', ''latitude''])"
  let ?fd = "[(''latitude'', PFloat 40.5), (''room_type_Private room'', PInt 1)]"
  have cols: "feature_columns ?g = Some [''room_type_Private room'', ''room_type'', ''latitude'']"
    by (simp add: some_globals_def)
  have num: "\<forall>c \<in> set [''room_type_Private room'', ''room_type'', ''latitude''].
      \<forall>v. map_of ?fd c = Some v \<longrightarrow> storable v"
    by (simp add: float_bound_def)
  have vec: "map (\<lambda>c. case map_of ?fd c of None \<Rightarrow> 0 | Some v \<Rightarrow> stored ?w v)
               [''room_type_Private room'', ''room_type'', ''latitude''] = [1, 0, 40.5]"
    by simp
  note aligns = prepare_features_array_aligns [of ?w ?g ?fd]
  from aligns [THEN conjunct2, THEN conjunct1, THEN spec, THEN mp, THEN mp, OF cols num]
  have run: "prepare_features_array ?w ?g ?fd = Inr [1, 0, 40.5]"
    unfolding vec .
  from aligns [THEN conjunct1] cols
  have "prepare_features_array ?w ?g ?fd \<noteq> Inl schema_unavailable"
    by simp
  with run show ?thesis by (rule conjI)
qed

text \<open>
  C2 as stated fails: engineer_features copies latitude without looking at it, and with a
  schema loaded that names latitude, storing the str 'abc' into the float array raises,
  and so does storing the int \<open>10 ^ 400\<close>.
\<close>

theorem prepare_features_array_raises_on_str_and_large_int:
  "and_then (engineer_features (PDict [(''latitude'', PStr ''abc'')]))
     (prepare_features_array (a_world (Inr PNone) sink_down)
        (some_globals None None (Some [''latitude'']))) =
   Inl (RaisedByLibrary ''ValueError: could not convert string to float'') \<and>
   and_then (engineer_features (PDict [(''latitude'', PInt (10 ^ 400))]))
     (prepare_features_array (a_world (Inr PNone) sink_down)
        (some_globals None None (Some [''latitude'']))) =
   Inl OverflowError"
  by (simp add: engineer_features_def engineer_body_closed engineered_def dict_get_def
      py_truediv_def float_bound_def py_gt_int_def neighbourhood_freq_def
      prepare_features_array_def some_globals_def a_world_def dict_has_def dict_item_def
      numpy_rejects_def)

section \<open>Prediction Service: shaping of the result\<close>

lemma and_then_Inl_iff:
  "and_then m f = Inl e \<longleftrightarrow> m = Inl e \<or> (\<exists>x. m = Inr x \<and> f x = Inl e)"
  by (cases m) simp_all

lemma price_record_Inr:
  assumes "price_record w g m = Inr (predicted_price, confidence, prediction_record)"
  obtains input_data features_dict feature_array raw version where
    "get_json w = Inr input_data"
    "engineer_features input_data = Inr features_dict"
    "prepare_features_array w g features_dict = Inr feature_array"
    "m feature_array = Inr raw"
    "record_version g ''price_model'' = Inr version"
    "predicted_price = py_max_10 raw"
    "confidence = random_uniform w"
    "prediction_record =
       PDict [(''prediction_type'', PStr ''price''),
              (''predicted_value'', py_max_10 raw),
              (''confidence_score'', PFloat (random_uniform w)),
              (''model_version'', version),
              (''input_features'', PDict features_dict)]"
proof -
  from assms [unfolded price_record_def Let_def and_then_Inr_iff]
  obtain x xa xb xc xd where
    a: "get_json w = Inr x" "engineer_features x = Inr xa"
       "prepare_features_array w g xa = Inr xb" "m xb = Inr xc"
       "record_version g ''price_model'' = Inr xd"
    and eq: "Inr (py_max_10 xc, random_uniform w,
                  PDict [(''prediction_type'', PStr ''price''),
                         (''predicted_value'', py_max_10 xc),
                         (''confidence_score'', PFloat (random_uniform w)),
                         (''model_version'', xd), (''input_features'', PDict xa)]) =
             (Inr (predicted_price, confidence, prediction_record) :: py_error + _)"
    by blast
  from eq have b: "predicted_price = py_max_10 xc" "confidence = random_uniform w"
    "prediction_record =
       PDict [(''prediction_type'', PStr ''price''),
              (''predicted_value'', py_max_10 xc),
              (''confidence_score'', PFloat (random_uniform w)),
              (''model_version'', xd), (''input_features'', PDict xa)]"
    by auto
  show thesis by (rule that [OF a b])
qed

lemma demand_record_Inr:
  assumes "demand_record w g m = Inr (predicted_class, probability, prediction_record)"
  obtains input_data features_dict feature_array raw version where
    "get_json w = Inr input_data"
    "engineer_features input_data = Inr features_dict"
    "prepare_features_array w g features_dict = Inr feature_array"
    "m feature_array = Inr raw"
    "record_version g ''demand_model'' = Inr version"
    "probability = np_clip raw 0 1"
    "predicted_class = (if 0.5 < np_clip raw 0 1 then ''high-demand'' else ''low-demand'')"
    "prediction_record =
       PDict [(''prediction_type'', PStr ''demand''),
              (''predicted_class'',
                 PStr (if 0.5 < np_clip raw 0 1 then ''high-demand'' else ''low-demand'')),
              (''confidence_score'', PFloat (np_clip raw 0 1)),
              (''model_version'', version),
              (''input_features'', PDict features_dict)]"
proof -
  from assms [unfolded demand_record_def Let_def and_then_Inr_iff]
  obtain x xa xb xc xd where
    a: "get_json w = Inr x" "engineer_features x = Inr xa"
       "prepare_features_array w g xa = Inr xb" "m xb = Inr xc"
       "record_version g ''demand_model'' = Inr xd"
    and eq: "Inr (if 0.5 < np_clip xc 0 1 then ''high-demand'' else ''low-demand'',
                  np_clip xc 0 1,
                  PDict [(''prediction_type'', PStr ''demand''),
                         (''predicted_class'',
                            PStr (if 0.5 < np_clip xc 0 1 then ''high-demand'' else ''low-demand'')),
                         (''confidence_score'', PFloat (np_clip xc 0 1)),
                         (''model_version'', xd), (''input_features'', PDict xa)]) =
             (Inr (predicted_class, probability, prediction_record) :: py_error + _)"
    by blast
  from eq have b: "probability = np_clip xc 0 1"
    "predicted_class = (if 0.5 < np_clip xc 0 1 then ''high-demand'' else ''low-demand'')"
    "prediction_record =
       PDict [(''prediction_type'', PStr ''demand''),
              (''predicted_class'',
                 PStr (if 0.5 < np_clip xc 0 1 then ''high-demand'' else ''low-demand'')),
              (''confidence_score'', PFloat (np_clip xc 0 1)),
              (''model_version'', xd), (''input_features'', PDict xa)]"
    by auto
  show thesis by (rule that [OF a b])
qed


lemma predict_price_200:
  assumes "predict_price w g = ((Json result, 200), recs)"
  obtains m predicted_price confidence prediction_record version where
    "price_model g = Some m"
    "price_record w g m = Inr (predicted_price, confidence, prediction_record)"
    "result_version w g ''RandomForestRegressor'' ''price_model'' = Inr version"
    "recs = [prediction_record]"
    "result = [(''prediction_id'', store w prediction_record),
               (''predicted_price'', predicted_price),
               (''confidence'', PFloat confidence),
               (''model_version'', version)]"
proof (cases "price_model g")
  case None
  with assms show thesis by (simp add: predict_price_def)
next
  case (Some m)
  show thesis
  proof (cases "price_record w g m")
    case (Inl e)
    with Some assms show thesis by (simp add: predict_price_def)
  next
    case (Inr t)
    obtain p c r where t: "t = (p, c, r)" by (cases t)
    show thesis
    proof (cases "result_version w g ''RandomForestRegressor'' ''price_model''")
      case (Inl e)
      with Some Inr t assms show thesis by (simp add: predict_price_def)
    next
      case version: (Inr version)
      with Some Inr t assms have
        "recs = [r]" and
        "result = [(''prediction_id'', store w r), (''predicted_price'', p),
                   (''confidence'', PFloat c), (''model_version'', version)]"
        by (auto simp: predict_price_def Let_def)
      with Some Inr t version show thesis by (intro that) auto
    qed
  qed
qed

lemma predict_demand_200:
  assumes "predict_demand w g = ((Json result, 200), recs)"
  obtains m predicted_class probability prediction_record version where
    "demand_model g = Some m"
    "demand_record w g m = Inr (predicted_class, probability, prediction_record)"
    "result_version w g ''LightGBMClassifier'' ''demand_model'' = Inr version"
    "recs = [prediction_record]"
    "result = [(''prediction_id'', store w prediction_record),
               (''predicted_class'', PStr predicted_class),
               (''probability'', PFloat probability),
               (''model_version'', version)]"
proof (cases "demand_model g")
  case None
  with assms show thesis by (simp add: predict_demand_def)
next
  case (Some m)
  show thesis
  proof (cases "demand_record w g m")
    case (Inl e)
    with Some assms show thesis by (simp add: predict_demand_def)
  next
    case (Inr t)
    obtain p c r where t: "t = (p, c, r)" by (cases t)
    show thesis
    proof (cases "result_version w g ''LightGBMClassifier'' ''demand_model''")
      case (Inl e)
      with Some Inr t assms show thesis by (simp add: predict_demand_def)
    next
      case version: (Inr version)
      with Some Inr t assms have
        "recs = [r]" and
        "result = [(''prediction_id'', store w r), (''predicted_class'', PStr p),
                   (''probability'', PFloat c), (''model_version'', version)]"
        by (auto simp: predict_demand_def Let_def)
      with Some Inr t version show thesis by (intro that) auto
    qed
  qed
qed


lemma np_clip_unit: "np_clip x 0 1 = min 1 (max 0 x)"
  by (simp add: np_clip_def min_def max_def)

text \<open>
  C3. When predict_demand answers 200, the demand model is loaded and the pipeline ran on
  the request: the probability returned is the model's raw score clamped to [0, 1], that
  is 0 for a score below 0, 1 for a score above 1 and the score itself otherwise, and
  the class label, in the response and in the record, is 'high-demand' if the clamped
  score is greater than 0.5 and 'low-demand' otherwise. So a raw score above 0.5 is
  answered 'high-demand', and a raw score of 0.5 or less, 0.5 itself included, is
  answered 'low-demand'.
\<close>

theorem predict_demand_label:
  assumes "predict_demand w g = ((Json result, 200), recs)"
  shows "\<exists>m input_data features_dict feature_array raw prediction_record.
           demand_model g = Some m \<and>
           get_json w = Inr input_data \<and>
           engineer_features input_data = Inr features_dict \<and>
           prepare_features_array w g features_dict = Inr feature_array \<and>
           m feature_array = Inr raw \<and>
           map_of result ''probability'' =
             Some (PFloat (if raw < 0 then 0 else if 1 < raw then 1 else raw)) \<and>
           map_of result ''predicted_class'' =
             Some (PStr (if 0.5 < (if raw < 0 then 0 else if 1 < raw then 1 else raw)
                         then ''high-demand'' else ''low-demand'')) \<and>
           (0.5 < raw \<longrightarrow> map_of result ''predicted_class'' = Some (PStr ''high-demand'')) \<and>
           (raw \<le> 0.5 \<longrightarrow> map_of result ''predicted_class'' = Some (PStr ''low-demand'')) \<and>
           recs = [PDict prediction_record] \<and>
           map_of prediction_record ''predicted_class'' = map_of result ''predicted_class'' \<and>
           map_of prediction_record ''confidence_score'' = map_of result ''probability''"
proof -
  from assms obtain m predicted_class probability prediction_record version where
    m: "demand_model g = Some m" and
    r: "demand_record w g m = Inr (predicted_class, probability, prediction_record)" and
    recs: "recs = [prediction_record]" and
    result: "result = [(''prediction_id'', store w prediction_record),
               (''predicted_class'', PStr predicted_class),
               (''probability'', PFloat probability),
               (''model_version'', version)]"
    by (rule predict_demand_200)
  from r obtain input_data features_dict feature_array raw version' where
    steps: "get_json w = Inr input_data"
      "engineer_features input_data = Inr features_dict"
      "prepare_features_array w g features_dict = Inr feature_array"
      "m feature_array = Inr raw" and
    p: "probability = np_clip raw 0 1" and
    c: "predicted_class = (if 0.5 < np_clip raw 0 1 then ''high-demand'' else ''low-demand'')" and
    rec: "prediction_record =
       PDict [(''prediction_type'', PStr ''demand''),
              (''predicted_class'',
                 PStr (if 0.5 < np_clip raw 0 1 then ''high-demand'' else ''low-demand'')),
              (''confidence_score'', PFloat (np_clip raw 0 1)),
              (''model_version'', version'),
              (''input_features'', PDict features_dict)]"
    by (rule demand_record_Inr)
  have clip: "np_clip raw 0 1 = (if raw < 0 then 0 else if 1 < raw then 1 else raw)"
    by (simp add: np_clip_def min_def max_def)
  have r1: "map_of result ''probability'' =
              Some (PFloat (if raw < 0 then 0 else if 1 < raw then 1 else raw))"
    by (simp add: result p clip)
  have r2: "map_of result ''predicted_class'' =
             Some (PStr (if 0.5 < (if raw < 0 then 0 else if 1 < raw then 1 else raw)
                         then ''high-demand'' else ''low-demand''))"
    by (simp add: result c clip)
  have r3: "0.5 < raw \<longrightarrow> map_of result ''predicted_class'' = Some (PStr ''high-demand'')"
    unfolding r2 by simp
  have r4: "raw \<le> 0.5 \<longrightarrow> map_of result ''predicted_class'' = Some (PStr ''low-demand'')"
    unfolding r2 by simp
  let ?rec = "[(''prediction_type'', PStr ''demand''),
              (''predicted_class'',
                 PStr (if 0.5 < np_clip raw 0 1 then ''high-demand'' else ''low-demand'')),
              (''confidence_score'', PFloat (np_clip raw 0 1)),
              (''model_version'', version'),
              (''input_features'', PDict features_dict)]"
  have r5: "recs = [PDict ?rec]"
    by (simp add: recs rec)
  have r6: "map_of ?rec ''predicted_class'' = map_of result ''predicted_class''"
    unfolding r2 by (simp add: clip)
  have r7: "map_of ?rec ''confidence_score'' = map_of result ''probability''"
    unfolding r1 by (simp add: clip)
  show ?thesis
    by (rule exI [of _ m], rule exI [of _ input_data], rule exI [of _ features_dict],
        rule exI [of _ feature_array], rule exI [of _ raw], rule exI [of _ ?rec])
       (intro conjI m steps r1 r2 r3 r4 r5 r6 r7)
qed

lemma demand_at:
  "predict_demand (a_world (Inr (PDict [])) sink_up)
     (some_globals None (Some (constant_model c)) (Some [''latitude'', ''room_type''])) =
   ((Json [(''prediction_id'', PInt 7),
           (''predicted_class'',
              PStr (if 0.5 < np_clip c 0 1 then ''high-demand'' else ''low-demand'')),
           (''probability'', PFloat (np_clip c 0 1)),
           (''model_version'', PStr ''LightGBMClassifier-v1.0'')], 200),
    [PDict [(''prediction_type'', PStr ''demand''),
            (''predicted_class'',
               PStr (if 0.5 < np_clip c 0 1 then ''high-demand'' else ''low-demand'')),
            (''confidence_score'', PFloat (np_clip c 0 1)),
            (''model_version'', PStr ''1.0''),
            (''input_features'',
               PDict (engineered [] (PFloat 1) (PInt 0) (PFloat (1 / 365)) (PFloat 0.054)))]])"
  by (simp add: predict_demand_def demand_record_def a_world_def some_globals_def
      constant_model_def sink_up_def engineer_features_def engineer_body_closed
      dict_get_def py_truediv_def float_bound_def py_gt_int_def neighbourhood_freq_def
      prepare_features_array_def dict_has_def dict_item_def
      record_version_def result_version_def store_def engineered_def indicator_def Let_def)

theorem predict_demand_label_witness:
  "answer (predict_demand (a_world (Inr (PDict [])) sink_up)
             (some_globals None (Some (constant_model 0.51)) (Some [''latitude'', ''room_type''])))
      ''predicted_class'' = Some (PStr ''high-demand'') \<and>
   answer (predict_demand (a_world (Inr (PDict [])) sink_up)
             (some_globals None (Some (constant_model 0.5)) (Some [''latitude'', ''room_type''])))
      ''predicted_class'' = Some (PStr ''low-demand'') \<and>
   answer (predict_demand (a_world (Inr (PDict [])) sink_up)
             (some_globals None (Some (constant_model 0.49)) (Some [''latitude'', ''room_type''])))
      ''predicted_class'' = Some (PStr ''low-demand'') \<and>
   answer (predict_demand (a_world (Inr (PDict [])) sink_up)
             (some_globals None (Some (constant_model 7)) (Some [''latitude'', ''room_type''])))
      ''probability'' = Some (PFloat 1)"
proof -
  have label: "answer (predict_demand (a_world (Inr (PDict [])) sink_up)
             (some_globals None (Some (constant_model c)) (Some [''latitude'', ''room_type''])))
             ''predicted_class'' =
          Some (PStr (if 0.5 < c then ''high-demand'' else ''low-demand'')) \<and>
        answer (predict_demand (a_world (Inr (PDict [])) sink_up)
             (some_globals None (Some (constant_model c)) (Some [''latitude'', ''room_type''])))
             ''probability'' =
          Some (PFloat (if c < 0 then 0 else if 1 < c then 1 else c))" for c
    using predict_demand_label [OF demand_at [of c]]
  proof (elim exE conjE)
    fix m feature_array raw
    assume m: "demand_model (some_globals None (Some (constant_model c))
                 (Some [''latitude'', ''room_type''])) = Some m"
      and raw: "m feature_array = Inr raw"
      and hi: "0.5 < raw \<longrightarrow>
           map_of [(''prediction_id'', PInt 7),
             (''predicted_class'',
                PStr (if 0.5 < np_clip c 0 1 then ''high-demand'' else ''low-demand'')),
             (''probability'', PFloat (np_clip c 0 1)),
             (''model_version'', PStr ''LightGBMClassifier-v1.0'')] ''predicted_class'' =
           Some (PStr ''high-demand'')"
      and lo: "raw \<le> 0.5 \<longrightarrow>
           map_of [(''prediction_id'', PInt 7),
             (''predicted_class'',
                PStr (if 0.5 < np_clip c 0 1 then ''high-demand'' else ''low-demand'')),
             (''probability'', PFloat (np_clip c 0 1)),
             (''model_version'', PStr ''LightGBMClassifier-v1.0'')] ''predicted_class'' =
           Some (PStr ''low-demand'')"
      and p: "map_of [(''prediction_id'', PInt 7),
             (''predicted_class'',
                PStr (if 0.5 < np_clip c 0 1 then ''high-demand'' else ''low-demand'')),
             (''probability'', PFloat (np_clip c 0 1)),
             (''model_version'', PStr ''LightGBMClassifier-v1.0'')] ''probability'' =
           Some (PFloat (if raw < 0 then 0 else if 1 < raw then 1 else raw))"
    from m have "m = constant_model c" by (simp add: some_globals_def)
    with raw have c: "raw = c" by (simp add: constant_model_def)
    have hi': "0.5 < c \<Longrightarrow>
           map_of [(''prediction_id'', PInt 7),
             (''predicted_class'',
                PStr (if 0.5 < np_clip c 0 1 then ''high-demand'' else ''low-demand'')),
             (''probability'', PFloat (np_clip c 0 1)),
             (''model_version'', PStr ''LightGBMClassifier-v1.0'')] ''predicted_class'' =
           Some (PStr ''high-demand'')"
      using hi unfolding c by (simp only:)
    have lo': "\<not> 0.5 < c \<Longrightarrow>
           map_of [(''prediction_id'', PInt 7),
             (''predicted_class'',
                PStr (if 0.5 < np_clip c 0 1 then ''high-demand'' else ''low-demand'')),
             (''probability'', PFloat (np_clip c 0 1)),
             (''model_version'', PStr ''LightGBMClassifier-v1.0'')] ''predicted_class'' =
           Some (PStr ''low-demand'')"
      using lo unfolding c by (simp only: not_less)
    show ?thesis
      unfolding answer_def demand_at [of c] fst_conv response_body.case
      using hi' lo' p [unfolded c] by (cases "0.5 < c") (simp_all only: if_True if_False simp_thms)
  qed
  from label [of "0.51"] label [of "0.5"] label [of "0.49"] label [of 7]
  show ?thesis by simp
qed

text \<open>
  C4. When predict_price answers 200, the price model is loaded and the pipeline ran on
  the request: the predicted price, in the response and in the record handed to the
  insert, is the number max(10, raw) for the model's raw output, so it is at least 10.
\<close>

theorem predict_price_floor:
  assumes "predict_price w g = ((Json result, 200), recs)"
  shows "\<exists>m input_data features_dict feature_array raw v prediction_record.
           price_model g = Some m \<and>
           get_json w = Inr input_data \<and>
           engineer_features input_data = Inr features_dict \<and>
           prepare_features_array w g features_dict = Inr feature_array \<and>
           m feature_array = Inr raw \<and>
           map_of result ''predicted_price'' = Some v \<and>
           py_num v = Some (max 10 raw) \<and>
           10 \<le> max 10 raw \<and>
           recs = [PDict prediction_record] \<and>
           map_of prediction_record ''predicted_value'' = Some v"
proof -
  from assms obtain m predicted_price confidence prediction_record version where
    m: "price_model g = Some m" and
    r: "price_record w g m = Inr (predicted_price, confidence, prediction_record)" and
    recs: "recs = [prediction_record]" and
    result: "result = [(''prediction_id'', store w prediction_record),
               (''predicted_price'', predicted_price),
               (''confidence'', PFloat confidence),
               (''model_version'', version)]"
    by (rule predict_price_200)
  from r obtain input_data features_dict feature_array raw version' where
    steps: "get_json w = Inr input_data"
      "engineer_features input_data = Inr features_dict"
      "prepare_features_array w g features_dict = Inr feature_array"
      "m feature_array = Inr raw" and
    p: "predicted_price = py_max_10 raw" and
    rec: "prediction_record =
       PDict [(''prediction_type'', PStr ''price''),
              (''predicted_value'', py_max_10 raw),
              (''confidence_score'', PFloat (random_uniform w)),
              (''model_version'', version'),
              (''input_features'', PDict features_dict)]"
    by (rule price_record_Inr)
  let ?rec = "[(''prediction_type'', PStr ''price''),
              (''predicted_value'', py_max_10 raw),
              (''confidence_score'', PFloat (random_uniform w)),
              (''model_version'', version'),
              (''input_features'', PDict features_dict)]"
  have r1: "map_of result ''predicted_price'' = Some (py_max_10 raw)"
    by (simp add: result p)
  have r2: "py_num (py_max_10 raw) = Some (max 10 raw)"
    by (simp add: py_max_10_def max_def)
  have r3: "10 \<le> max 10 raw" by simp
  have r4: "recs = [PDict ?rec]" by (simp add: recs rec)
  have r5: "map_of ?rec ''predicted_value'' = Some (py_max_10 raw)" by simp
  show ?thesis
    by (rule exI [of _ m], rule exI [of _ input_data], rule exI [of _ features_dict],
        rule exI [of _ feature_array], rule exI [of _ raw], rule exI [of _ "py_max_10 raw"],
        rule exI [of _ ?rec])
       (intro conjI m steps r1 r2 r3 r4 r5)
qed

lemma price_below_floor:
  "predict_price (a_world (Inr (PDict [])) sink_up)
     (some_globals (Some (constant_model (- 50))) None (Some [''latitude'', ''room_type''])) =
   ((Json [(''prediction_id'', PInt 7), (''predicted_price'', PInt 10),
           (''confidence'', PFloat 0.8),
           (''model_version'', PStr ''RandomForestRegressor-v1.0'')], 200),
    [PDict [(''prediction_type'', PStr ''price''),
            (''predicted_value'', PInt 10),
            (''confidence_score'', PFloat 0.8),
            (''model_version'', PStr ''1.0''),
            (''input_features'',
               PDict (engineered [] (PFloat 1) (PInt 0) (PFloat (1 / 365)) (PFloat 0.054)))]])"
  by (simp add: predict_price_def price_record_def a_world_def some_globals_def
      constant_model_def sink_up_def engineer_features_def engineer_body_closed
      dict_get_def py_truediv_def float_bound_def py_gt_int_def neighbourhood_freq_def
      prepare_features_array_def dict_has_def dict_item_def py_max_10_def
      record_version_def result_version_def store_def engineered_def indicator_def Let_def)

theorem predict_price_floor_witness:
  "predict_price (a_world (Inr (PDict [])) sink_up)
     (some_globals (Some (constant_model (- 50))) None (Some [''latitude'', ''room_type''])) =
   ((Json [(''prediction_id'', PInt 7), (''predicted_price'', PInt 10),
           (''confidence'', PFloat 0.8),
           (''model_version'', PStr ''RandomForestRegressor-v1.0'')], 200),
    [PDict [(''prediction_type'', PStr ''price''),
            (''predicted_value'', PInt 10),
            (''confidence_score'', PFloat 0.8),
            (''model_version'', PStr ''1.0''),
            (''input_features'',
               PDict (engineered [] (PFloat 1) (PInt 0) (PFloat (1 / 365)) (PFloat 0.054)))]]) \<and>
   py_num (PInt 10) = Some (max 10 (- 50))"
proof -
  from predict_price_floor [OF price_below_floor] show ?thesis
  proof (elim exE conjE)
    fix m feature_array raw v
    assume m: "price_model (some_globals (Some (constant_model (- 50))) None
                 (Some [''latitude'', ''room_type''])) = Some m"
      and raw: "m feature_array = Inr raw"
      and v: "map_of [(''prediction_id'', PInt 7), (''predicted_price'', PInt 10),
           (''confidence'', PFloat 0.8),
           (''model_version'', PStr ''RandomForestRegressor-v1.0'')] ''predicted_price'' = Some v"
      and n: "py_num v = Some (max 10 raw)"
    from m have "m = constant_model (- 50)" by (simp add: some_globals_def)
    with raw have "raw = - 50" by (simp add: constant_model_def)
    moreover from v have "v = PInt 10" by simp
    ultimately show ?thesis using n price_below_floor by (simp only: simp_thms)
  qed
qed

section \<open>Prediction Service: the sink and the random draw\<close>

lemma fill_loop_world:
  assumes "np_object w' = np_object w" and "nearest_float w' = nearest_float w"
  shows "fill_loop w' fd cols arr = fill_loop w fd cols arr"
proof (induction cols arbitrary: arr)
  case Nil
  show ?case by simp
next
  case (Cons ic rest)
  obtain i col where ic: "ic = (i, col)" by (cases ic)
  have eq: "np_float64 w' v = np_float64 w v" for v
    by (cases v) (simp_all add: assms)
  show ?case unfolding ic fill_loop.simps eq Cons.IH ..
qed

lemma prepare_features_array_world:
  assumes "np_object w' = np_object w" and "nearest_float w' = nearest_float w"
  shows "prepare_features_array w' g fd = prepare_features_array w g fd"
  unfolding prepare_features_array_def fill_loop_world [OF assms] ..

lemma price_record_world:
  assumes j: "get_json w' = get_json w" and n: "np_object w' = np_object w"
    and f: "nearest_float w' = nearest_float w"
    and u: "random_uniform w' = random_uniform w"
  shows "price_record w' g m = price_record w g m"
  unfolding price_record_def j u prepare_features_array_world [OF n f] ..

lemma demand_record_world:
  assumes j: "get_json w' = get_json w" and n: "np_object w' = np_object w"
    and f: "nearest_float w' = nearest_float w"
  shows "demand_record w' g m = demand_record w g m"
  unfolding demand_record_def j prepare_features_array_world [OF n f] ..

lemma result_version_world:
  assumes "format_object w' = format_object w"
  shows "result_version w' g name key = result_version w g name key"
proof -
  have "py_format w' v = py_format w v" for v
    by (simp add: py_format_def assms split: pyval.splits)
  then show ?thesis unfolding result_version_def by (simp only:)
qed


lemma store_sink_raises:
  "\<forall>r. \<exists>e. sink r = Inl e \<Longrightarrow> store (w\<lparr>insert_execute := sink\<rparr>) r = PNone"
proof -
  assume "\<forall>r. \<exists>e. sink r = Inl e"
  then obtain e where "sink r = Inl e" by blast
  then show ?thesis by (simp add: store_def)
qed

text \<open>
  C5. If the insert raises, whatever record it is given, an endpoint that answers 200
  with a working sink answers 200 as well, with the same record handed to the insert and
  the same result except that prediction_id is None.
\<close>

theorem persistence_failure_swallowed:
  assumes "\<forall>r. \<exists>e. sink r = Inl e"
  shows "(\<forall>result recs. predict_price w g = ((Json result, 200), recs) \<longrightarrow>
            predict_price (w\<lparr>insert_execute := sink\<rparr>) g =
              ((Json (dict_set result ''prediction_id'' PNone), 200), recs)) \<and>
         (\<forall>result recs. predict_demand w g = ((Json result, 200), recs) \<longrightarrow>
            predict_demand (w\<lparr>insert_execute := sink\<rparr>) g =
              ((Json (dict_set result ''prediction_id'' PNone), 200), recs))"
proof (intro conjI allI impI)
  fix result recs
  assume "predict_price w g = ((Json result, 200), recs)"
  then obtain m predicted_price confidence prediction_record version where
    m: "price_model g = Some m" and
    r: "price_record w g m = Inr (predicted_price, confidence, prediction_record)" and
    v: "result_version w g ''RandomForestRegressor'' ''price_model'' = Inr version" and
    recs: "recs = [prediction_record]" and
    result: "result = [(''prediction_id'', store w prediction_record),
               (''predicted_price'', predicted_price),
               (''confidence'', PFloat confidence),
               (''model_version'', version)]"
    by (rule predict_price_200)
  have r': "price_record (w\<lparr>insert_execute := sink\<rparr>) g m =
              Inr (predicted_price, confidence, prediction_record)"
    using r price_record_world [of "w\<lparr>insert_execute := sink\<rparr>" w g m] by simp
  have v': "result_version (w\<lparr>insert_execute := sink\<rparr>) g ''RandomForestRegressor''
              ''price_model'' = Inr version"
    using v result_version_world [of "w\<lparr>insert_execute := sink\<rparr>" w] by simp
  show "predict_price (w\<lparr>insert_execute := sink\<rparr>) g =
          ((Json (dict_set result ''prediction_id'' PNone), 200), recs)"
    by (simp add: predict_price_def m r' v' store_sink_raises [OF assms] recs result)
next
  fix result recs
  assume "predict_demand w g = ((Json result, 200), recs)"
  then obtain m predicted_class probability prediction_record version where
    m: "demand_model g = Some m" and
    r: "demand_record w g m = Inr (predicted_class, probability, prediction_record)" and
    v: "result_version w g ''LightGBMClassifier'' ''demand_model'' = Inr version" and
    recs: "recs = [prediction_record]" and
    result: "result = [(''prediction_id'', store w prediction_record),
               (''predicted_class'', PStr predicted_class),
               (''probability'', PFloat probability),
               (''model_version'', version)]"
    by (rule predict_demand_200)
  have r': "demand_record (w\<lparr>insert_execute := sink\<rparr>) g m =
              Inr (predicted_class, probability, prediction_record)"
    using r demand_record_world [of "w\<lparr>insert_execute := sink\<rparr>" w g m] by simp
  have v': "result_version (w\<lparr>insert_execute := sink\<rparr>) g ''LightGBMClassifier''
              ''demand_model'' = Inr version"
    using v result_version_world [of "w\<lparr>insert_execute := sink\<rparr>" w] by simp
  show "predict_demand (w\<lparr>insert_execute := sink\<rparr>) g =
          ((Json (dict_set result ''prediction_id'' PNone), 200), recs)"
    by (simp add: predict_demand_def m r' v' store_sink_raises [OF assms] recs result)
qed

theorem persistence_failure_swallowed_witness:
  "predict_price (a_world (Inr (PDict [])) sink_down)
     (some_globals (Some (constant_model (- 50))) None (Some [''latitude'', ''room_type''])) =
   ((Json [(''prediction_id'', PNone), (''predicted_price'', PInt 10),
           (''confidence'', PFloat 0.8),
           (''model_version'', PStr ''RandomForestRegressor-v1.0'')], 200),
    [PDict [(''prediction_type'', PStr ''price''),
            (''predicted_value'', PInt 10),
            (''confidence_score'', PFloat 0.8),
            (''model_version'', PStr ''1.0''),
            (''input_features'',
               PDict (engineered [] (PFloat 1) (PInt 0) (PFloat (1 / 365)) (PFloat 0.054)))]])"
proof -
  have down: "\<forall>r. \<exists>e. sink_down r = Inl e" by (simp add: sink_down_def)
  have w: "(a_world (Inr (PDict [])) sink_up)\<lparr>insert_execute := sink_down\<rparr> =
           a_world (Inr (PDict [])) sink_down"
    by (simp add: a_world_def)
  from persistence_failure_swallowed [OF down, THEN conjunct1, rule_format, OF price_below_floor]
  show ?thesis unfolding w by simp
qed

section \<open>Prediction Service: repeated requests\<close>

lemma price_record_draw:
  "(\<exists>e. price_record w g m = Inl e \<and>
        price_record (w\<lparr>random_uniform := c, insert_execute := sink\<rparr>) g m = Inl e) \<or>
   (\<exists>p version fd.
        price_record w g m =
          Inr (p, random_uniform w,
               PDict [(''prediction_type'', PStr ''price''), (''predicted_value'', p),
                      (''confidence_score'', PFloat (random_uniform w)),
                      (''model_version'', version), (''input_features'', PDict fd)]) \<and>
        price_record (w\<lparr>random_uniform := c, insert_execute := sink\<rparr>) g m =
          Inr (p, c,
               PDict [(''prediction_type'', PStr ''price''), (''predicted_value'', p),
                      (''confidence_score'', PFloat c),
                      (''model_version'', version), (''input_features'', PDict fd)]))"
proof -
  have pre: "prepare_features_array (w\<lparr>random_uniform := c, insert_execute := sink\<rparr>) g fd =
             prepare_features_array w g fd" for fd
    by (rule prepare_features_array_world) simp_all
  show ?thesis
    unfolding price_record_def pre Let_def
    by (simp add: and_then_def split: sum.splits)
qed

lemma observable_price_error:
  "observable [''prediction_id'', ''confidence'', ''confidence_score'']
     ((ErrorStr e, 500),
      [PDict [(''prediction_type'', PStr ''price''), (''predicted_value'', p),
              (''confidence_score'', PFloat c),
              (''model_version'', version), (''input_features'', PDict fd)]]) =
   ((ErrorStr e, 500),
    [PDict [(''prediction_type'', PStr ''price''), (''predicted_value'', p),
            (''model_version'', version), (''input_features'', PDict fd)]])"
  by (simp add: observable_def)

lemma observable_price_result:
  "observable [''prediction_id'', ''confidence'', ''confidence_score'']
     ((Json [(''prediction_id'', i), (''predicted_price'', p), (''confidence'', PFloat c),
             (''model_version'', label)], 200),
      [PDict [(''prediction_type'', PStr ''price''), (''predicted_value'', p),
              (''confidence_score'', PFloat c),
              (''model_version'', version), (''input_features'', PDict fd)]]) =
   ((Json [(''predicted_price'', p), (''model_version'', label)], 200),
    [PDict [(''prediction_type'', PStr ''price''), (''predicted_value'', p),
            (''model_version'', version), (''input_features'', PDict fd)]])"
  by (simp add: observable_def)

lemma predict_price_repeat:
  "observable [''prediction_id'', ''confidence'', ''confidence_score'']
     (predict_price (w\<lparr>random_uniform := c, insert_execute := sink\<rparr>) g) =
   observable [''prediction_id'', ''confidence'', ''confidence_score''] (predict_price w g)"
proof (cases "price_model g")
  case None
  then show ?thesis by (simp add: predict_price_def)
next
  case (Some m)
  have v: "result_version (w\<lparr>random_uniform := c, insert_execute := sink\<rparr>) g
             ''RandomForestRegressor'' ''price_model'' =
           result_version w g ''RandomForestRegressor'' ''price_model''"
    by (rule result_version_world) simp
  from price_record_draw [where w = w and g = g and m = m and c = c and sink = sink]
  show ?thesis
  proof (elim disjE exE conjE)
    fix e
    assume "price_record w g m = Inl e"
      "price_record (w\<lparr>random_uniform := c, insert_execute := sink\<rparr>) g m = Inl e"
    with Some show ?thesis by (simp add: predict_price_def)
  next
    fix p version fd
    assume r: "price_record w g m =
          Inr (p, random_uniform w,
               PDict [(''prediction_type'', PStr ''price''), (''predicted_value'', p),
                      (''confidence_score'', PFloat (random_uniform w)),
                      (''model_version'', version), (''input_features'', PDict fd)])"
      and r': "price_record (w\<lparr>random_uniform := c, insert_execute := sink\<rparr>) g m =
          Inr (p, c,
               PDict [(''prediction_type'', PStr ''price''), (''predicted_value'', p),
                      (''confidence_score'', PFloat c),
                      (''model_version'', version), (''input_features'', PDict fd)])"
    show ?thesis
    proof (cases "result_version w g ''RandomForestRegressor'' ''price_model''")
      case (Inl e)
      with Some r r' v show ?thesis
        by (simp add: predict_price_def observable_price_error)
    next
      case (Inr label)
      with Some r r' v show ?thesis
        by (simp add: predict_price_def observable_price_result)
    qed
  qed
qed

lemma predict_demand_repeat:
  "observable [''prediction_id'']
     (predict_demand (w\<lparr>random_uniform := c, insert_execute := sink\<rparr>) g) =
   observable [''prediction_id''] (predict_demand w g)"
proof (cases "demand_model g")
  case None
  then show ?thesis by (simp add: predict_demand_def)
next
  case (Some m)
  have v: "result_version (w\<lparr>random_uniform := c, insert_execute := sink\<rparr>) g
             ''LightGBMClassifier'' ''demand_model'' =
           result_version w g ''LightGBMClassifier'' ''demand_model''"
    by (rule result_version_world) simp
  have r: "demand_record (w\<lparr>random_uniform := c, insert_execute := sink\<rparr>) g m =
           demand_record w g m"
    by (rule demand_record_world) simp_all
  show ?thesis
  proof (cases "demand_record w g m")
    case (Inl e)
    with Some r show ?thesis by (simp add: predict_demand_def)
  next
    case (Inr t)
    obtain cls prob rec where t: "t = (cls, prob, rec)" by (cases t)
    show ?thesis
    proof (cases "result_version w g ''LightGBMClassifier'' ''demand_model''")
      case (Inl e)
      with Some r Inr t v show ?thesis by (simp add: predict_demand_def)
    next
      case label: (Inr label)
      with Some r Inr t v show ?thesis by (simp add: predict_demand_def observable_def)
    qed
  qed
qed

text \<open>
  C9. With the globals and the request fixed, another run of an endpoint, whatever the
  random draw and whatever the sink does, gives the same status and the same response and
  record in every field but the sink's prediction_id and, for the price endpoint, the
  confidence (confidence in the response, confidence_score in the record): the predicted
  value or class label, the model version and the persisted feature set are the same.
\<close>

theorem prediction_idempotent:
  "observable [''prediction_id'', ''confidence'', ''confidence_score'']
     (predict_price (w\<lparr>random_uniform := c, insert_execute := sink\<rparr>) g) =
   observable [''prediction_id'', ''confidence'', ''confidence_score''] (predict_price w g) \<and>
   observable [''prediction_id'']
     (predict_demand (w\<lparr>random_uniform := c, insert_execute := sink\<rparr>) g) =
   observable [''prediction_id''] (predict_demand w g)"
  using predict_price_repeat predict_demand_repeat by (rule conjI)


section \<open>Prediction Service: a body that is not an object\<close>

lemma engineer_features_no_object:
  assumes "\<forall>d. get_json w \<noteq> Inr (PDict d)"
  shows "and_then (get_json w) engineer_features =
           Inl (case get_json w of Inl e \<Rightarrow> e | Inr v \<Rightarrow> AttributeError)"
proof (cases "get_json w")
  case (Inl e)
  then show ?thesis by simp
next
  case (Inr v)
  with assms have "\<forall>d. v \<noteq> PDict d" by simp
  then have "engineer_features v = Inl AttributeError"
    by (rule engineer_features_not_dict)
  with Inr show ?thesis by simp
qed

lemma and_then_assoc: "and_then (and_then m f) h = and_then m (\<lambda>x. and_then (f x) h)"
  by (cases m) simp_all

lemma price_record_no_object:
  assumes "\<forall>d. get_json w \<noteq> Inr (PDict d)"
  shows "price_record w g m = Inl (case get_json w of Inl e \<Rightarrow> e | Inr v \<Rightarrow> AttributeError)"
proof -
  have "price_record w g m =
        and_then (and_then (get_json w) engineer_features) (\<lambda>features_dict.
        and_then (prepare_features_array w g features_dict) (\<lambda>feature_array.
        and_then (m feature_array) (\<lambda>raw.
        and_then (record_version g ''price_model'') (\<lambda>version.
        Inr (py_max_10 raw, random_uniform w,
             PDict [(''prediction_type'', PStr ''price''),
                    (''predicted_value'', py_max_10 raw),
                    (''confidence_score'', PFloat (random_uniform w)),
                    (''model_version'', version),
                    (''input_features'', PDict features_dict)])))))"
    unfolding price_record_def Let_def and_then_assoc ..
  then show ?thesis unfolding engineer_features_no_object [OF assms] by simp
qed

lemma demand_record_no_object:
  assumes "\<forall>d. get_json w \<noteq> Inr (PDict d)"
  shows "demand_record w g m = Inl (case get_json w of Inl e \<Rightarrow> e | Inr v \<Rightarrow> AttributeError)"
proof -
  have "demand_record w g m =
        and_then (and_then (get_json w) engineer_features) (\<lambda>features_dict.
        and_then (prepare_features_array w g features_dict) (\<lambda>feature_array.
        and_then (m feature_array) (\<lambda>raw.
        and_then (record_version g ''demand_model'') (\<lambda>version.
        Inr (if 0.5 < np_clip raw 0 1 then ''high-demand'' else ''low-demand'',
             np_clip raw 0 1,
             PDict [(''prediction_type'', PStr ''demand''),
                    (''predicted_class'',
                       PStr (if 0.5 < np_clip raw 0 1 then ''high-demand'' else ''low-demand'')),
                    (''confidence_score'', PFloat (np_clip raw 0 1)),
                    (''model_version'', version),
                    (''input_features'', PDict features_dict)])))))"
    unfolding demand_record_def Let_def and_then_assoc ..
  then show ?thesis unfolding engineer_features_no_object [OF assms] by simp
qed

text \<open>
  C8, as amended. When \<^verbatim>\<open>request.get_json()\<close> raises or returns anything but an object,
  each prediction endpoint answers with status 500 and an error body, and hands nothing
  to the insert: the body is \<^verbatim>\<open>{'error': str(e)}\<close> for the exception raised (AttributeError
  for a parsed value without \<^verbatim>\<open>.get\<close>) when the model is loaded, and the
  "model not loaded" message, under the same status 500, when it is not.
\<close>

theorem malformed_body_is_server_error:
  assumes "\<forall>d. get_json w \<noteq> Inr (PDict d)"
  shows "predict_price w g =
           ((case price_model g of
               None \<Rightarrow> ErrorLiteral ''Price model not loaded''
             | Some m \<Rightarrow> ErrorStr (case get_json w of Inl e \<Rightarrow> e | Inr v \<Rightarrow> AttributeError),
             500), []) \<and>
         predict_demand w g =
           ((case demand_model g of
               None \<Rightarrow> ErrorLiteral ''Demand model not loaded''
             | Some m \<Rightarrow> ErrorStr (case get_json w of Inl e \<Rightarrow> e | Inr v \<Rightarrow> AttributeError),
             500), [])"
proof
  show "predict_price w g =
           ((case price_model g of
               None \<Rightarrow> ErrorLiteral ''Price model not loaded''
             | Some m \<Rightarrow> ErrorStr (case get_json w of Inl e \<Rightarrow> e | Inr v \<Rightarrow> AttributeError),
             500), [])"
    by (cases "price_model g")
       (simp_all add: predict_price_def price_record_no_object [OF assms])
  show "predict_demand w g =
           ((case demand_model g of
               None \<Rightarrow> ErrorLiteral ''Demand model not loaded''
             | Some m \<Rightarrow> ErrorStr (case get_json w of Inl e \<Rightarrow> e | Inr v \<Rightarrow> AttributeError),
             500), [])"
    by (cases "demand_model g")
       (simp_all add: predict_demand_def demand_record_no_object [OF assms])
qed

theorem malformed_body_is_server_error_witness:
  "predict_price (a_world (Inr (PList [])) sink_up)
     (some_globals (Some (constant_model 100)) None (Some [''latitude''])) =
     ((ErrorStr AttributeError, 500), []) \<and>
   predict_demand (a_world (Inr (PList [])) sink_up)
     (some_globals (Some (constant_model 100)) None (Some [''latitude''])) =
     ((ErrorLiteral ''Demand model not loaded'', 500), [])"
proof -
  have body: "\<forall>d. get_json (a_world (Inr (PList [])) sink_up) \<noteq> Inr (PDict d)"
    by (simp add: a_world_def)
  from malformed_body_is_server_error [OF body,
      of "some_globals (Some (constant_model 100)) None (Some [''latitude''])"]
  show ?thesis by (simp add: a_world_def some_globals_def)
qed

text \<open>
  C8 as stated fails: with the price model loaded, a request whose body is the JSON array
  \<^verbatim>\<open>[]\<close> is answered with status 500, which is no 4xx status.
\<close>

theorem array_body_is_not_client_error:
  "\<not> (400 \<le> status (predict_price (a_world (Inr (PList [])) sink_up)
                      (some_globals (Some (constant_model 100)) None (Some [''latitude''])))
      \<and> status (predict_price (a_world (Inr (PList [])) sink_up)
                      (some_globals (Some (constant_model 100)) None (Some [''latitude''])))
          < 500)"
  by (simp add: status_def predict_price_def price_record_def a_world_def some_globals_def
      engineer_features_def)

section \<open>Serving against training\<close>

lemma map_of_tabulate:
  "map_of (map (\<lambda>k. (k, f k)) xs) k = (if k \<in> set xs then Some (f k) else None)"
  by (induction xs) auto

lemma train_neighbourhood_encoded:
  assumes "i < length df"
  shows "map_of (train_engineer_features df ! i) ''neighbourhood_encoded'' =
         Some (PFloat (real (count_list (map neighbourhood df) (neighbourhood (df ! i))) /
                       real (length df)))"
proof -
  from assms have "df ! i \<in> set df" by simp
  then have "neighbourhood (df ! i) \<in> set (map neighbourhood df)" by simp
  then have "series_map (value_counts (map neighbourhood df)) (neighbourhood (df ! i)) =
             PFloat (real (count_list (map neighbourhood df) (neighbourhood (df ! i))) /
                     real (length df))"
    by (simp add: series_map_def value_counts_def map_of_tabulate)
  with assms show ?thesis
    by (simp add: train_engineer_features_def columns_def)
qed

lemma raw_record_served:
  assumes "engineer_features (raw_record r) = Inr f"
  obtains ar rd mr enc where "f = engineered (take 10 (columns r)) ar rd mr enc"
    and "freq_get (PStr (neighbourhood r)) = Inr enc"
proof -
  from assms obtain d ar rd mr enc where d: "raw_record r = PDict d"
    and f: "f = engineered d ar rd mr enc"
    and enc: "freq_get (dict_get d ''neighbourhood'' (PStr ''Harlem'')) = Inr enc"
    by (rule engineer_features_Inr)
  from d have d': "d = take 10 (columns r)" by (simp add: raw_record_def)
  have "dict_get (take 10 (columns r)) ''neighbourhood'' (PStr ''Harlem'') =
        PStr (neighbourhood r)"
    by (simp add: columns_def dict_get_def)
  with enc f d' show thesis by (intro that [of ar rd mr enc]) simp_all
qed

lemma serve_neighbourhood_encoded:
  assumes "feature_of (engineer_features (raw_record r)) ''neighbourhood_encoded'' = Some v"
  shows "v = PFloat (case map_of neighbourhood_freq (neighbourhood r) of
                       None \<Rightarrow> 0.01 | Some x \<Rightarrow> x)"
proof (cases "engineer_features (raw_record r)")
  case (Inl e)
  with assms show ?thesis by (simp add: feature_of_def)
next
  case (Inr f)
  then obtain ar rd mr enc where f: "f = engineered (take 10 (columns r)) ar rd mr enc"
    and enc: "freq_get (PStr (neighbourhood r)) = Inr enc"
    by (rule raw_record_served)
  from assms Inr f have "v = enc" by (simp add: feature_of_def map_of_engineered)
  with enc show ?thesis by simp
qed

lemma table_sum:
  "(\<Sum>v \<in> set (map fst neighbourhood_freq).
      case map_of neighbourhood_freq v of None \<Rightarrow> 0.01 | Some x \<Rightarrow> x) = (0.445 :: real)"
proof -
  have d: "distinct (map fst neighbourhood_freq)" by (simp add: neighbourhood_freq_def)
  show ?thesis
    unfolding sum.distinct_set_conv_list [OF d]
    by (simp add: neighbourhood_freq_def)
qed

lemma table_nonneg:
  "0 \<le> (case map_of neighbourhood_freq v of None \<Rightarrow> 0.01 | Some x \<Rightarrow> (x :: real))"
  by (simp add: neighbourhood_freq_def)

text \<open>
  On every frame the generator can build (non-empty, neighbourhoods drawn from the ten
  names of the serving table) some row is encoded differently by the training pipeline
  and by the serving function: the training shares add up to 1, the serving table to
  0.445.
\<close>

lemma encoding_differs_on_generated_frames:
  assumes "df \<noteq> []"
    and "\<forall>r \<in> set df. neighbourhood r \<in> set (map fst neighbourhood_freq)"
  shows "\<exists>i < length df.
           map_of (train_engineer_features df ! i) ''neighbourhood_encoded'' \<noteq>
           feature_of (engineer_features (raw_record (df ! i))) ''neighbourhood_encoded''"
proof (rule ccontr)
  let ?col = "map neighbourhood df"
  let ?T = "\<lambda>v. case map_of neighbourhood_freq v of None \<Rightarrow> (0.01 :: real) | Some x \<Rightarrow> x"
  assume "\<not> ?thesis"
  then have eq: "\<forall>i < length df.
      feature_of (engineer_features (raw_record (df ! i))) ''neighbourhood_encoded'' =
      Some (PFloat (real (count_list ?col (neighbourhood (df ! i))) / real (length df)))"
    by (simp add: train_neighbourhood_encoded)
  have same: "\<forall>i < length df.
      real (count_list ?col (neighbourhood (df ! i))) / real (length df) =
      ?T (neighbourhood (df ! i))"
  proof (intro allI impI)
    fix i
    assume "i < length df"
    with eq have "feature_of (engineer_features (raw_record (df ! i))) ''neighbourhood_encoded'' =
      Some (PFloat (real (count_list ?col (neighbourhood (df ! i))) / real (length df)))"
      by simp
    from serve_neighbourhood_encoded [OF this]
    show "real (count_list ?col (neighbourhood (df ! i))) / real (length df) =
      ?T (neighbourhood (df ! i))"
      by simp
  qed
  have each: "real (count_list ?col v) / real (length df) = ?T v" if "v \<in> set ?col" for v
  proof -
    from that obtain i where "i < length df" "v = neighbourhood (df ! i)"
      by (auto simp: in_set_conv_nth)
    with same show ?thesis by simp
  qed
  have "(\<Sum>v \<in> set ?col. ?T v) = (\<Sum>v \<in> set ?col. real (count_list ?col v) / real (length df))"
    by (rule sum.cong) (simp_all add: each)
  also have "\<dots> = real (\<Sum>v \<in> set ?col. count_list ?col v) / real (length df)"
    by (simp add: sum_divide_distrib)
  also have "(\<Sum>v \<in> set ?col. count_list ?col v) = length ?col"
    by (rule sum_count_set) simp_all
  also have "real (length ?col) / real (length df) = 1"
    using assms(1) by simp
  finally have one: "(\<Sum>v \<in> set ?col. ?T v) = 1" .
  have "set ?col \<subseteq> set (map fst neighbourhood_freq)"
    using assms(2) by auto
  then have "(\<Sum>v \<in> set ?col. ?T v) \<le> (\<Sum>v \<in> set (map fst neighbourhood_freq). ?T v)"
    by (intro sum_mono2) (simp_all add: table_nonneg)
  with one table_sum show False by simp
qed

text \<open>
  The one-hot part agrees: for a row of the frame on which the serving function
  returns, and a category that occurs in the frame's column, the training dummy and the
  serving indicator are the same number.
\<close>

lemma map_of_dummies:
  "map_of (get_dummies col prefix x) (prefix @ ''_'' @ c) =
     (if c \<in> set col then Some (PBool (x = c)) else None)"
proof -
  have "map_of (map (\<lambda>v. (prefix @ ''_'' @ v, PBool (x = v))) cats) (prefix @ ''_'' @ c) =
        (if c \<in> set cats then Some (PBool (x = c)) else None)" for cats
    by (induction cats) auto
  then show ?thesis by (simp add: get_dummies_def)
qed

lemma train_room_type_dummy:
  assumes "i < length df" and "c \<in> set (map room_type df)"
  shows "map_of (train_engineer_features df ! i) (''room_type'' @ ''_'' @ c) =
         Some (PBool (room_type (df ! i) = c))"
proof -
  let ?r = "df ! i"
  let ?k = "''room_type'' @ ''_'' @ c"
  have c1: "map_of (columns ?r) ?k = None" by (simp add: columns_def)
  have c2: "map_of
      [(''availability_ratio'', PFloat (availability_365 ?r / 365)),
       (''reviews_density'',
          PFloat (if 0 < number_of_reviews ?r
                  then reviews_per_month ?r / real_of_int (number_of_reviews ?r) else 0)),
       (''min_nights_ratio'', PFloat (real_of_int (minimum_nights ?r) / 365)),
       (''neighbourhood_encoded'',
          series_map (value_counts (map neighbourhood df)) (neighbourhood ?r))] ?k = None"
    by simp
  have c3: "map_of (get_dummies (map room_type df) ''room_type'' (room_type ?r)) ?k =
            Some (PBool (room_type ?r = c))"
    using assms(2) by (simp only: map_of_dummies if_True)
  show ?thesis
    unfolding train_engineer_features_def Let_def nth_map [OF assms(1)]
    by (simp only: map_of_append map_add_def c1 c2 c3 option.case)
qed

lemma serve_room_type_indicator:
  assumes "engineer_features (raw_record r) = Inr f"
  shows "map_of f (''room_type'' @ ''_'' @ c) =
     (if c \<in> set room_types then Some (if room_type r = c then PInt 1 else PInt 0) else None)"
proof -
  from assms obtain ar rd mr enc where f: "f = engineered (take 10 (columns r)) ar rd mr enc"
    by (rule raw_record_served)
  have rt: "dict_get (take 10 (columns r)) ''room_type'' (PStr ''Entire home/apt'') =
            PStr (room_type r)"
    by (simp add: columns_def dict_get_def)
  show ?thesis
    unfolding f
    by (auto simp: engineered_def rt indicator_def room_types_def)
qed

lemma train_neighbourhood_group_dummy:
  assumes "i < length df" and "c \<in> set (map neighbourhood_group df)"
  shows "map_of (train_engineer_features df ! i) (''neighbourhood_group'' @ ''_'' @ c) =
         Some (PBool (neighbourhood_group (df ! i) = c))"
proof -
  let ?r = "df ! i"
  let ?k = "''neighbourhood_group'' @ ''_'' @ c"
  have c1: "map_of (columns ?r) ?k = None" by (simp add: columns_def)
  have c2: "map_of
      [(''availability_ratio'', PFloat (availability_365 ?r / 365)),
       (''reviews_density'',
          PFloat (if 0 < number_of_reviews ?r
                  then reviews_per_month ?r / real_of_int (number_of_reviews ?r) else 0)),
       (''min_nights_ratio'', PFloat (real_of_int (minimum_nights ?r) / 365)),
       (''neighbourhood_encoded'',
          series_map (value_counts (map neighbourhood df)) (neighbourhood ?r))] ?k = None"
    by simp
  have c3: "map_of (get_dummies (map room_type df) ''room_type'' (room_type ?r)) ?k = None"
    by (simp add: get_dummies_def map_of_eq_None_iff image_iff)
  have c4: "map_of (get_dummies (map neighbourhood_group df) ''neighbourhood_group''
                      (neighbourhood_group ?r)) ?k =
            Some (PBool (neighbourhood_group ?r = c))"
    using assms(2) by (simp only: map_of_dummies if_True)
  show ?thesis
    unfolding train_engineer_features_def Let_def nth_map [OF assms(1)]
    by (simp only: map_of_append map_add_def c1 c2 c3 c4 option.case)
qed

lemma serve_neighbourhood_group_indicator:
  assumes "engineer_features (raw_record r) = Inr f"
  shows "map_of f (''neighbourhood_group'' @ ''_'' @ c) =
     (if c \<in> set neighbourhood_groups
      then Some (if neighbourhood_group r = c then PInt 1 else PInt 0) else None)"
proof -
  from assms obtain ar rd mr enc where f: "f = engineered (take 10 (columns r)) ar rd mr enc"
    by (rule raw_record_served)
  have ng: "dict_get (take 10 (columns r)) ''neighbourhood_group'' (PStr ''Manhattan'') =
            PStr (neighbourhood_group r)"
    by (simp add: columns_def dict_get_def)
  show ?thesis
    unfolding f
    by (auto simp: engineered_def ng indicator_def neighbourhood_groups_def)
qed

lemma one_hot_agrees:
  assumes "i < length df" and "engineer_features (raw_record (df ! i)) = Inr f"
  shows "c \<in> set (map room_type df) \<Longrightarrow> c \<in> set room_types \<Longrightarrow>
           map_option py_num (map_of (train_engineer_features df ! i) (''room_type'' @ ''_'' @ c)) =
           map_option py_num (map_of f (''room_type'' @ ''_'' @ c))"
    and "c \<in> set (map neighbourhood_group df) \<Longrightarrow> c \<in> set neighbourhood_groups \<Longrightarrow>
           map_option py_num
             (map_of (train_engineer_features df ! i) (''neighbourhood_group'' @ ''_'' @ c)) =
           map_option py_num (map_of f (''neighbourhood_group'' @ ''_'' @ c))"
proof -
  show "c \<in> set (map room_type df) \<Longrightarrow> c \<in> set room_types \<Longrightarrow>
           map_option py_num (map_of (train_engineer_features df ! i) (''room_type'' @ ''_'' @ c)) =
           map_option py_num (map_of f (''room_type'' @ ''_'' @ c))"
    unfolding serve_room_type_indicator [OF assms(2)]
    by (simp only: train_room_type_dummy [OF assms(1)]) simp
  show "c \<in> set (map neighbourhood_group df) \<Longrightarrow> c \<in> set neighbourhood_groups \<Longrightarrow>
           map_option py_num
             (map_of (train_engineer_features df ! i) (''neighbourhood_group'' @ ''_'' @ c)) =
           map_option py_num (map_of f (''neighbourhood_group'' @ ''_'' @ c))"
    unfolding serve_neighbourhood_group_indicator [OF assms(2)]
    by (simp only: train_neighbourhood_group_dummy [OF assms(1)]) simp
qed

text \<open>
  C1. The claim fails on the code for neighbourhood_encoded. In the frame of the two
  listings \<open>harlem\<close> and \<open>astoria\<close>, the training pipeline encodes the Harlem listing by its
  share of the frame, 1/2; the serving function encodes the same raw record by its
  hard-coded table, 0.054.
\<close>

theorem neighbourhood_encoding_differs:
  "map_of (train_engineer_features [harlem, astoria] ! 0) ''neighbourhood_encoded'' =
     Some (PFloat (1 / 2)) \<and>
   feature_of (engineer_features (raw_record ([harlem, astoria] ! 0))) ''neighbourhood_encoded'' =
     Some (PFloat 0.054)"
proof
  show "map_of (train_engineer_features [harlem, astoria] ! 0) ''neighbourhood_encoded'' =
     Some (PFloat (1 / 2))"
    by (simp add: train_neighbourhood_encoded harlem_def astoria_def)
  show "feature_of (engineer_features (raw_record ([harlem, astoria] ! 0)))
          ''neighbourhood_encoded'' = Some (PFloat 0.054)"
    by (simp add: feature_of_def raw_record_def columns_def harlem_def engineer_features_def
        engineer_body_closed engineered_def dict_get_def py_truediv_def to_float_def
        float_bound_def py_gt_int_def neighbourhood_freq_def)
qed

end
